theory Spec2Isabelle
  imports Complex_Main "HOL-Library.Multiset" "HOL-Library.Log_Nat"
begin

section \<open>Numbers, instants and the date library\<close>

text \<open>
  The dosage tracker is JavaScript. A finite number is a \<^typ>\<open>real\<close>, the result of
  \<open>parseFloat\<close> is a \<^typ>\<open>real option\<close> with \<open>None\<close> for \<open>NaN\<close> (a parsed \<open>Infinity\<close> is
  left out), and the one division whose divisor can be zero
  (\<open>dosageAmount / currentRate\<close>) yields a \<open>jsnum\<close>, which adds \<open>NaN\<close> and the two
  infinities. The additions that build the total given are the additions of IEEE 754
  doubles, rounded to the nearest double with ties to even; the exponent range is taken
  as unbounded there, so neither overflow nor subnormal numbers occur. The other
  arithmetic is exact, and the sign of zero is not modelled. The current time is an
  argument of every function that reads the clock.
\<close>

datatype jsnum = NaN | PosInf | NegInf | Fin real

text \<open>
  Rounding to a double. \<open>exponentOf x\<close> is the binary exponent of a non-zero \<open>x\<close>, the
  \<open>e\<close> with \<open>2^e \<le> |x| < 2^(e+1)\<close>, read off the bit length of the integer part of
  \<open>|x|\<close> or of \<open>1/|x|\<close>. A double keeps 53 significant bits: \<open>x\<close> is scaled so that its
  integer part has 53 bits, rounded to the nearest integer with ties to the even one,
  and scaled back.
\<close>

definition exponentOf :: "real \<Rightarrow> int" where
  "exponentOf x =
     (if 1 \<le> \<bar>x\<bar> then bitlen \<lfloor>\<bar>x\<bar>\<rfloor> - 1
      else - bitlen (\<lceil>1 / \<bar>x\<bar>\<rceil> - 1))"

definition roundHalfEven :: "real \<Rightarrow> int" where
  "roundHalfEven x =
     (let f = \<lfloor>x\<rfloor>; d = x - real_of_int f in
      if d < 1/2 then f
      else if 1/2 < d then f + 1
      else if even f then f else f + 1)"

definition roundDouble :: "real \<Rightarrow> real" where
  "roundDouble x =
     (if x = 0 then 0
      else let e = exponentOf x - 52
           in real_of_int (roundHalfEven (x / 2 powi e)) * 2 powi e)"

text \<open>\<open>a + b\<close> on two doubles.\<close>

definition addDouble :: "real \<Rightarrow> real \<Rightarrow> real" where
  "addDouble a b = roundDouble (a + b)"

text \<open>\<open>a / b\<close> for a parsed amount \<open>a\<close> and a finite rate \<open>b\<close>.\<close>

fun divide_js :: "real option \<Rightarrow> real \<Rightarrow> jsnum" where
  "divide_js None b = NaN"
| "divide_js (Some a) b =
     (if b \<noteq> 0 then Fin (a / b)
      else if a = 0 then NaN
      else if 0 < a then PosInf else NegInf)"

text \<open>\<open>x || 0\<close> on a parsed amount: \<open>NaN\<close> and \<open>0\<close> are falsy.\<close>

fun orZero :: "real option \<Rightarrow> real" where
  "orZero None = 0"
| "orZero (Some a) = a"

text \<open>
  A Luxon \<open>DateTime\<close> is invalid or carries its epoch time in milliseconds. All instants
  of one run live in the one configured zone, so \<open>equals\<close> and the comparison
  \<open>a > b\<close> read the epoch times; an invalid instant is equal to nothing and greater than
  nothing.
\<close>

datatype DateTime = InvalidDT | DT real

fun isValid :: "DateTime \<Rightarrow> bool" where
  "isValid InvalidDT = False"
| "isValid (DT t) = True"

fun equalsDT :: "DateTime \<Rightarrow> DateTime \<Rightarrow> bool" where
  "equalsDT (DT a) (DT b) = (a = b)"
| "equalsDT _ _ = False"

fun greaterDT :: "DateTime \<Rightarrow> DateTime \<Rightarrow> bool" where
  "greaterDT (DT a) (DT b) = (b < a)"
| "greaterDT _ _ = False"

text \<open>\<open>DateTime.fromISO\<close> of a stored time string: whole milliseconds, or invalid.\<close>

fun fromISO :: "int option \<Rightarrow> DateTime" where
  "fromISO None = InvalidDT"
| "fromISO (Some ms) = DT (real_of_int ms)"

text \<open>
  \<open>dt.minus({ hours: h })\<close>. An invalid instant is returned as it is. A finite \<open>h\<close> moves
  the instant by \<open>h\<close> hours. Luxon refuses \<open>NaN\<close> as a unit value by throwing
  (\<open>None\<close> here). Releases differ on an infinite \<open>h\<close>: the stricter ones throw as well
  (\<open>strict = True\<close>), the others return an invalid instant (\<open>strict = False\<close>).
\<close>

fun minusHours :: "bool \<Rightarrow> DateTime \<Rightarrow> jsnum \<Rightarrow> DateTime option" where
  "minusHours strict InvalidDT h = Some InvalidDT"
| "minusHours strict (DT t) (Fin h) = Some (DT (t - h * 3600000))"
| "minusHours strict (DT t) NaN = None"
| "minusHours strict (DT t) PosInf = (if strict then None else Some InvalidDT)"
| "minusHours strict (DT t) NegInf = (if strict then None else Some InvalidDT)"

text \<open>\<open>dt.minus({ milliseconds: 1 })\<close> on a valid instant.\<close>

fun minusMillisecond :: "DateTime \<Rightarrow> DateTime" where
  "minusMillisecond InvalidDT = InvalidDT"
| "minusMillisecond (DT t) = DT (t - 1)"

text \<open>\<open>calculateHoursBetween\<close>: the absolute difference in hours, \<open>0\<close> when either
  instant is invalid.\<close>

fun calculateHoursBetween :: "DateTime \<Rightarrow> DateTime \<Rightarrow> real" where
  "calculateHoursBetween (DT a) (DT b) = \<bar>b - a\<bar> / 3600000"
| "calculateHoursBetween _ _ = 0"

section \<open>Events and the rate\<close>

text \<open>
  An entry of \<open>eventsData\<close>: \<open>dosageAmount\<close> is the number stored, a double (\<open>None\<close>
  when it is \<open>NaN\<close>), \<open>dosageTime\<close> is the stored ISO string, kept as what \<open>fromISO\<close>
  reads from it.
\<close>

record event =
  dosageAmount :: "real option"
  dosageTime :: "int option"

text \<open>\<open>updateRateDisplay\<close>: the new \<open>currentRate\<close> from the two parsed input fields.\<close>

definition isNaN :: "real option \<Rightarrow> bool" where
  "isNaN x = (x = None)"

definition updateRateDisplay :: "real option \<Rightarrow> real option \<Rightarrow> real" where
  "updateRateDisplay pills hours =
     (if \<not> isNaN pills \<and> \<not> isNaN hours \<and> hours \<noteq> Some 0
      then the pills / the hours
      else 0)"

section \<open>Statistics\<close>

text \<open>
  The seven statistic elements as \<open>updateStatisticsDisplay\<close> writes them: the three
  totals as numbers (the rounding of \<open>toFixed\<close> is left out), the two threshold offsets
  and their clock times as \<open>None\<close> where the text is \<open>N/A\<close>.
\<close>

record statistics =
  s_needed :: real
  s_totalGiven :: real
  s_totalNeeded :: real
  s_half :: "real option"
  s_half_time :: "DateTime option"
  s_one :: "real option"
  s_one_time :: "DateTime option"

text \<open>
  What one call does to the seven elements: sets every one to \<open>N/A\<close>, returns early and
  leaves them as they were, is left by an exception of the date library (again nothing is
  written), or writes the statistics.
\<close>

datatype outcome = AllNA | Untouched | Threw | Stats statistics

text \<open>
  Line 255, \<open>events.reduce((sum, e) => sum + (parseFloat(e.dosageAmount) || 0), 0)\<close>: the
  amounts added from left to right as doubles, \<open>NaN\<close> and \<open>0\<close> counting as \<open>0\<close>.
\<close>

definition totalGivenOf :: "event list \<Rightarrow> real" where
  "totalGivenOf events = foldl (\<lambda>sum e. addDouble sum (orZero (dosageAmount e))) 0 events"

fun plusHours :: "DateTime \<Rightarrow> real \<Rightarrow> DateTime" where
  "plusHours InvalidDT h = InvalidDT"
| "plusHours (DT t) h = DT (t + h * 3600000)"

definition updateStatisticsDisplay ::
  "bool \<Rightarrow> real \<Rightarrow> DateTime \<Rightarrow> event list \<Rightarrow> outcome" where
  "updateStatisticsDisplay strict currentRate nowDT events =
     (if events = [] \<and> currentRate = 0 then AllNA
      else
        let totalGiven = totalGivenOf events in
        case events of
          [] \<Rightarrow> Untouched
        | e0 # _ \<Rightarrow>
            let firstEventDT = fromISO (dosageTime e0) in
            if \<not> isValid firstEventDT then Untouched
            else
              let initialDeficitHours = divide_js (dosageAmount e0) currentRate in
              (case minusHours strict firstEventDT initialDeficitHours of
                None \<Rightarrow> Threw
              | Some projectedStartTimeDT \<Rightarrow>
                  let hoursElapsed =
                        calculateHoursBetween projectedStartTimeDT firstEventDT
                        + calculateHoursBetween firstEventDT nowDT;
                      totalNeededIdeal = currentRate * hoursElapsed;
                      currentNeeded = max 0 (totalNeededIdeal - totalGiven)
                  in
                  if 0 < currentRate then
                    Stats \<lparr> s_needed = currentNeeded, s_totalGiven = totalGiven,
                            s_totalNeeded = totalNeededIdeal,
                            s_half = Some ((1/2 - currentNeeded) / currentRate),
                            s_half_time =
                              Some (plusHours nowDT ((1/2 - currentNeeded) / currentRate)),
                            s_one = Some ((1 - currentNeeded) / currentRate),
                            s_one_time =
                              Some (plusHours nowDT ((1 - currentNeeded) / currentRate)) \<rparr>
                  else
                    Stats \<lparr> s_needed = currentNeeded, s_totalGiven = totalGiven,
                            s_totalNeeded = totalNeededIdeal,
                            s_half = None, s_half_time = None,
                            s_one = None, s_one_time = None \<rparr>))"

text \<open>The text of one statistic element, and the elements after a call.\<close>

datatype text_value = NA | Shown real | Clock DateTime

record display =
  needed :: text_value
  totalGiven :: text_value
  totalNeeded :: text_value
  half :: text_value
  half_time :: text_value
  one_dose :: text_value
  one_time :: text_value

fun render :: "outcome \<Rightarrow> display \<Rightarrow> display" where
  "render AllNA d =
     \<lparr> needed = NA, totalGiven = NA, totalNeeded = NA, half = NA, half_time = NA,
       one_dose = NA, one_time = NA \<rparr>"
| "render Untouched d = d"
| "render Threw d = d"
| "render (Stats s) d =
     \<lparr> needed = Shown (s_needed s), totalGiven = Shown (s_totalGiven s),
       totalNeeded = Shown (s_totalNeeded s),
       half = (case s_half s of None \<Rightarrow> NA | Some h \<Rightarrow> Shown h),
       half_time = (case s_half_time s of None \<Rightarrow> NA | Some t \<Rightarrow> Clock t),
       one_dose = (case s_one s of None \<Rightarrow> NA | Some h \<Rightarrow> Shown h),
       one_time = (case s_one_time s of None \<Rightarrow> NA | Some t \<Rightarrow> Clock t) \<rparr>"

section \<open>The curve\<close>

text \<open>
  \<open>calculatePlotData\<close> keeps two parallel arrays, \<open>labels\<close> and \<open>neededDataPoints\<close>.
  An event that passed its filter is a pair of its epoch milliseconds and its amount.
\<close>

record plot =
  labels :: "DateTime list"
  neededDataPoints :: "real list"

type_synonym valid_event = "int \<times> real"

text \<open>The \<open>map\<close> and \<open>filter\<close> of lines 443 to 453: an event with an invalid time, a
  \<open>NaN\<close> amount or a negative amount is skipped.\<close>

fun validEvent :: "event \<Rightarrow> valid_event option" where
  "validEvent e =
     (case (dosageTime e, dosageAmount e) of
        (Some t, Some a) \<Rightarrow> if a < 0 then None else Some (t, a)
      | _ \<Rightarrow> None)"

text \<open>The stable sort by epoch milliseconds of line 454.\<close>

definition sortedEvents :: "event list \<Rightarrow> valid_event list" where
  "sortedEvents events = sort_key fst (List.map_filter validEvent events)"

text \<open>
  One round of the \<open>forEach\<close> of lines 485 to 506. The state is the two arrays and
  \<open>cumulativeDosageTaken\<close>. Writing the last cell of an empty array would not change its
  elements; \<open>list_update\<close> out of range leaves the list alone as well.
\<close>

fun plotStep ::
  "real \<Rightarrow> DateTime \<Rightarrow> plot \<times> real \<Rightarrow> valid_event \<Rightarrow> plot \<times> real" where
  "plotStep currentRate projectedStartTimeDT (p, cumulativeDosageTaken) (t, amount) =
     (let eventTimeDT = DT (real_of_int t);
          idealTotalIntakeByEventTime =
            currentRate * calculateHoursBetween projectedStartTimeDT eventTimeDT;
          p1 =
            (if labels p \<noteq> [] \<and> \<not> equalsDT eventTimeDT (last (labels p)) then
               \<lparr> labels = labels p @ [minusMillisecond eventTimeDT],
                 neededDataPoints = neededDataPoints p
                   @ [idealTotalIntakeByEventTime - cumulativeDosageTaken] \<rparr>
             else if labels p \<noteq> [] \<and> equalsDT eventTimeDT (last (labels p)) then
               p \<lparr> neededDataPoints := (neededDataPoints p)
                      [length (neededDataPoints p) - 1
                         := idealTotalIntakeByEventTime - cumulativeDosageTaken] \<rparr>
             else p);
          cumulativeDosageTaken' = cumulativeDosageTaken + amount
      in (\<lparr> labels = labels p1 @ [eventTimeDT],
             neededDataPoints = neededDataPoints p1
               @ [idealTotalIntakeByEventTime - cumulativeDosageTaken'] \<rparr>,
          cumulativeDosageTaken'))"

text \<open>Lines 461 to 506: the two opening points and the loop over the sorted events.\<close>

definition plotEvents :: "real \<Rightarrow> DateTime \<Rightarrow> valid_event list \<Rightarrow> plot \<times> real" where
  "plotEvents currentRate projectedStartTimeDT sortedEvs =
     (let firstEventTimeDT = DT (real_of_int (fst (hd sortedEvs)));
          timeBeforeFirstDoseDT = minusMillisecond firstEventTimeDT;
          idealIntakeBeforeFirstDose =
            currentRate * calculateHoursBetween projectedStartTimeDT firstEventTimeDT
      in foldl (plotStep currentRate projectedStartTimeDT)
           (\<lparr> labels = [projectedStartTimeDT, timeBeforeFirstDoseDT],
              neededDataPoints = [0, idealIntakeBeforeFirstDose] \<rparr>, 0)
           sortedEvs)"

text \<open>Lines 508 to 526: the point at the current time.\<close>

definition plotNow :: "real \<Rightarrow> DateTime \<Rightarrow> DateTime \<Rightarrow> plot \<times> real \<Rightarrow> plot" where
  "plotNow currentRate projectedStartTimeDT nowDT st =
     (let p = fst st; cumulativeDosageTaken = snd st in
      if \<not> isValid nowDT then p
      else if labels p = [] \<or> greaterDT nowDT (last (labels p)) then
        \<lparr> labels = labels p @ [nowDT],
          neededDataPoints = neededDataPoints p
            @ [currentRate * calculateHoursBetween projectedStartTimeDT nowDT
                 - cumulativeDosageTaken] \<rparr>
      else if labels p \<noteq> [] \<and> equalsDT nowDT (last (labels p)) then
        p \<lparr> neededDataPoints := (neededDataPoints p)
               [length (neededDataPoints p) - 1
                  := currentRate * calculateHoursBetween projectedStartTimeDT nowDT
                       - cumulativeDosageTaken] \<rparr>
      else p)"

text \<open>\<open>calculatePlotData\<close>; \<open>None\<close> when the date library throws.\<close>

definition calculatePlotData ::
  "bool \<Rightarrow> real \<Rightarrow> DateTime \<Rightarrow> event list \<Rightarrow> plot option" where
  "calculatePlotData strict currentRate nowDT events =
     (let sortedEvs = sortedEvents events in
      if sortedEvs = [] then Some \<lparr> labels = [], neededDataPoints = [] \<rparr>
      else
        let firstEventTimeDT = DT (real_of_int (fst (hd sortedEvs)));
            initialDeficitHours = divide_js (Some (snd (hd sortedEvs))) currentRate
        in case minusHours strict firstEventTimeDT initialDeficitHours of
             None \<Rightarrow> None
           | Some projectedStartTimeDT \<Rightarrow>
               Some (plotNow currentRate projectedStartTimeDT nowDT
                       (plotEvents currentRate projectedStartTimeDT sortedEvs)))"

text \<open>
  \<open>plotDosageGraph\<close>, the only caller: no chart for an empty list or a rate that is not
  positive, and none when the curve came back empty.
\<close>

datatype chart = NoChart | ChartThrew | Chart plot

definition plotDosageGraph :: "bool \<Rightarrow> real \<Rightarrow> DateTime \<Rightarrow> event list \<Rightarrow> chart" where
  "plotDosageGraph strict currentRate nowDT events =
     (if events = [] \<or> currentRate \<le> 0 then NoChart
      else case calculatePlotData strict currentRate nowDT events of
             None \<Rightarrow> ChartThrew
           | Some p \<Rightarrow>
               if labels p = [] \<and> neededDataPoints p = [] then NoChart else Chart p)"

section \<open>Removing an entry on the client\<close>

text \<open>
  The reply of the sheet endpoint as the client reads it (\<open>result.success\<close>,
  \<open>result.removed\<close>), and lines 622 to 653 of \<open>removeDosageEntryHandler\<close>: the new
  \<open>eventsData\<close>. The time to remove is the parsed \<open>rawTime\<close> of the row; when it is
  invalid the handler returns before it asks the endpoint. \<open>toMillis\<close> of an invalid
  time is \<open>NaN\<close>, which differs from every number.
\<close>

record reply =
  success :: bool
  removed :: bool

fun differsInMillis :: "int option \<Rightarrow> int \<Rightarrow> bool" where
  "differsInMillis None t = True"
| "differsInMillis (Some m) t = (m \<noteq> t)"

definition removeDosageEntryHandler ::
  "int option \<Rightarrow> reply \<Rightarrow> event list \<Rightarrow> event list" where
  "removeDosageEntryHandler dosageTimeToRemove result eventsData =
     (case dosageTimeToRemove of
        None \<Rightarrow> eventsData
      | Some t \<Rightarrow>
          if success result \<and> removed result
          then filter (\<lambda>event. differsInMillis (dosageTime event) t) eventsData
          else eventsData)"

section \<open>The sheet endpoint\<close>

text \<open>
  The Apps Script side keeps one sheet. A JavaScript string is its sequence of UTF-16
  code units, each a number below \<open>65536\<close>; \<open>str\<close> gives the code units of an ASCII
  literal. A cell holds a string (an empty cell reads as the empty string) or a value of
  another type (a number, a date, a boolean); a row is its first two cells; the sheet is
  its rows down to the last one with content, so \<open>getLastRow()\<close> is its length. The
  sheet named \<open>Sheet1\<close> exists and has at least two columns.
\<close>

type_synonym jsstring = "nat list"

definition str :: "string \<Rightarrow> jsstring" where
  "str s = map of_char s"

datatype cell = CStr jsstring | COther

type_synonym row = "cell \<times> cell"
type_synonym sheet = "row list"

definition DATE_HEADER :: jsstring where
  "DATE_HEADER = str ''Date''"

definition AMOUNT_HEADER :: jsstring where
  "AMOUNT_HEADER = str ''Amount''"

text \<open>
  \<open>String.prototype.trim\<close> strips white space and line terminators from both ends: tab,
  line feed, vertical tab, form feed, carriage return, space, the no-break space
  \<open>U+00A0\<close>, the other space separators \<open>U+1680\<close>, \<open>U+2000\<close> to \<open>U+200A\<close>, \<open>U+202F\<close>,
  \<open>U+205F\<close> and \<open>U+3000\<close>, the line and paragraph separators \<open>U+2028\<close> and \<open>U+2029\<close>,
  and the byte order mark \<open>U+FEFF\<close>.
\<close>

definition isSpace :: "nat \<Rightarrow> bool" where
  "isSpace c =
     (c \<in> set [0x09, 0x0A, 0x0B, 0x0C, 0x0D, 0x20, 0xA0, 0x1680, 0x2028, 0x2029, 0x202F,
                0x205F, 0x3000, 0xFEFF]
      \<or> (0x2000 \<le> c \<and> c \<le> 0x200A))"

definition trim :: "jsstring \<Rightarrow> jsstring" where
  "trim s = rev (dropWhile isSpace (rev (dropWhile isSpace s)))"

text \<open>
  \<open>_internalEnsureHeaders\<close>: an empty sheet gets the header row; a sheet whose first
  row is not the two headers gets a header row inserted above it.
\<close>

definition internalEnsureHeaders :: "sheet \<Rightarrow> sheet" where
  "internalEnsureHeaders sh =
     (case sh of
        [] \<Rightarrow> [(CStr DATE_HEADER, CStr AMOUNT_HEADER)]
      | r # rs \<Rightarrow>
          if fst r \<noteq> CStr DATE_HEADER \<or> snd r \<noteq> CStr AMOUNT_HEADER
          then (CStr DATE_HEADER, CStr AMOUNT_HEADER) # sh
          else sh)"

text \<open>
  The two patterns \<open>handleRemoveData\<close> tests the trimmed parameter against:
  \<open>^\d{4}-\d{2}-\d{2}T\d{2}:\d{2}:\d{2}(\.\d{1,3})?(Z|([+-]\d{2}(:\d{2})?))?$\<close> and
  \<open>^\d{4}-\d{2}-\d{2}$\<close>. A matcher takes a prefix off the string and hands back the
  rest. \<open>\d\<close> is one of the ten ASCII digits, the code units \<open>48\<close> to \<open>57\<close>.
\<close>

definition isDigit :: "nat \<Rightarrow> bool" where
  "isDigit c = (48 \<le> c \<and> c \<le> 57)"

fun digits :: "nat \<Rightarrow> jsstring \<Rightarrow> jsstring option" where
  "digits 0 s = Some s"
| "digits (Suc n) [] = None"
| "digits (Suc n) (c # cs) = (if isDigit c then digits n cs else None)"

fun lit :: "char \<Rightarrow> jsstring \<Rightarrow> jsstring option" where
  "lit x [] = None"
| "lit x (c # cs) = (if c = of_char x then Some cs else None)"

definition datePart :: "jsstring \<Rightarrow> jsstring option" where
  "datePart s =
     Option.bind (digits 4 s) (\<lambda>s.
     Option.bind (lit CHR ''-'' s) (\<lambda>s.
     Option.bind (digits 2 s) (\<lambda>s.
     Option.bind (lit CHR ''-'' s) (\<lambda>s.
     digits 2 s))))"

definition timePart :: "jsstring \<Rightarrow> jsstring option" where
  "timePart s =
     Option.bind (lit CHR ''T'' s) (\<lambda>s.
     Option.bind (digits 2 s) (\<lambda>s.
     Option.bind (lit CHR '':'' s) (\<lambda>s.
     Option.bind (digits 2 s) (\<lambda>s.
     Option.bind (lit CHR '':'' s) (\<lambda>s.
     digits 2 s)))))"

text \<open>The optional fraction \<open>(\.\d{1,3})?\<close>: every rest it can leave behind.\<close>

definition fractionRests :: "jsstring \<Rightarrow> jsstring list" where
  "fractionRests s =
     s # (case lit CHR ''.'' s of
            None \<Rightarrow> []
          | Some r \<Rightarrow> List.map_filter (\<lambda>n. digits n r) [1, 2, 3])"

text \<open>The optional zone \<open>(Z|([+-]\d{2}(:\d{2})?))?\<close> followed by the end of the string.\<close>

definition zoneToEnd :: "jsstring \<Rightarrow> bool" where
  "zoneToEnd s =
     (s = [] \<or> s = str ''Z''
      \<or> (case s of
            [] \<Rightarrow> False
          | c # cs \<Rightarrow>
              (c = of_char CHR ''+'' \<or> c = of_char CHR ''-'')
              \<and> (case digits 2 cs of
                    None \<Rightarrow> False
                  | Some r \<Rightarrow>
                      r = [] \<or> Option.bind (lit CHR '':'' r) (digits 2) = Some [])))"

definition isoDateTimeRegex :: "jsstring \<Rightarrow> bool" where
  "isoDateTimeRegex s =
     (case Option.bind (datePart s) timePart of
        None \<Rightarrow> False
      | Some r \<Rightarrow> list_ex zoneToEnd (fractionRests r))"

definition isoDateOnlyRegex :: "jsstring \<Rightarrow> bool" where
  "isoDateOnlyRegex s = (datePart s = Some [])"

text \<open>
  The row scan of lines 226 to 238: from the last row up to the second one (index
  \<open>1\<close>; index \<open>0\<close> is the header row), the first row whose date cell is a string that
  equals the target after trimming is found. The result is its index.
\<close>

fun cellMatches :: "jsstring \<Rightarrow> cell \<Rightarrow> bool" where
  "cellMatches targetIsoString (CStr cellValue) = (trim cellValue = targetIsoString)"
| "cellMatches targetIsoString COther = False"

fun scanRows :: "jsstring \<Rightarrow> sheet \<Rightarrow> nat \<Rightarrow> nat option" where
  "scanRows targetIsoString dateColumnValues 0 = None"
| "scanRows targetIsoString dateColumnValues (Suc i) =
     (if cellMatches targetIsoString (fst (dateColumnValues ! Suc i)) then Some (Suc i)
      else scanRows targetIsoString dateColumnValues i)"

text \<open>\<open>sheet.deleteRow(i + 1)\<close> for the row at index \<open>i\<close>.\<close>

definition deleteRow :: "nat \<Rightarrow> sheet \<Rightarrow> sheet" where
  "deleteRow i sh = take i sh @ drop (Suc i) sh"

text \<open>
  \<open>handleRemoveData\<close>: the reply and the sheet afterwards. The parameter is absent
  (\<open>None\<close>) or a string. A reply is an error (\<open>success: false\<close>) or \<open>success: true\<close>
  with the \<open>removed\<close> flag.
\<close>

datatype remove_error = MissingDate | InvalidDateFormat

datatype remove_reply = RemoveError remove_error | Removed bool

definition handleRemoveData ::
  "jsstring option \<Rightarrow> sheet \<Rightarrow> remove_reply \<times> sheet" where
  "handleRemoveData dateToRemoveParam sh =
     (case dateToRemoveParam of
        None \<Rightarrow> (RemoveError MissingDate, sh)
      | Some param \<Rightarrow>
          if param = [] \<or> trim param = [] then (RemoveError MissingDate, sh)
          else
            let targetIsoString = trim param in
            if \<not> isoDateTimeRegex targetIsoString \<and> \<not> isoDateOnlyRegex targetIsoString
            then (RemoveError InvalidDateFormat, sh)
            else if length sh \<le> 1 then (Removed False, sh)
            else
              let sh1 = internalEnsureHeaders sh in
              (case scanRows targetIsoString sh1 (length sh1 - 1) of
                 Some i \<Rightarrow> (Removed True, deleteRow i sh1)
               | None \<Rightarrow> (Removed False, sh1)))"

section \<open>Facts\<close>

lemma exponentOf_le:
  assumes "x \<noteq> 0"
  shows "2 powi (exponentOf x) \<le> \<bar>x\<bar>"
proof (cases "1 \<le> \<bar>x\<bar>")
  case True
  then have pos: "0 < \<lfloor>\<bar>x\<bar>\<rfloor>" by linarith
  have e: "exponentOf x = bitlen \<lfloor>\<bar>x\<bar>\<rfloor> - 1"
    using True by (simp add: exponentOf_def)
  have nn: "0 \<le> bitlen \<lfloor>\<bar>x\<bar>\<rfloor> - 1"
    using pos by (simp add: bitlen_alt_def)
  have "(2::int) ^ nat (bitlen \<lfloor>\<bar>x\<bar>\<rfloor> - 1) \<le> \<lfloor>\<bar>x\<bar>\<rfloor>"
    using bitlen_bounds [OF pos] by simp
  then have "real_of_int (2 ^ nat (bitlen \<lfloor>\<bar>x\<bar>\<rfloor> - 1)) \<le> real_of_int \<lfloor>\<bar>x\<bar>\<rfloor>"
    by (rule of_int_le_iff [THEN iffD2])
  also have "\<dots> \<le> \<bar>x\<bar>" by linarith
  finally have "(2::real) ^ nat (bitlen \<lfloor>\<bar>x\<bar>\<rfloor> - 1) \<le> \<bar>x\<bar>" by simp
  then show ?thesis
    unfolding e using nn by (simp add: power_int_nonneg_exp)
next
  case False
  define y where "y = 1 / \<bar>x\<bar>"
  have y1: "1 < y" using False assms by (simp add: y_def)
  then have pos: "0 < \<lceil>y\<rceil> - 1" by linarith
  have e: "exponentOf x = - bitlen (\<lceil>y\<rceil> - 1)"
    using False by (simp add: exponentOf_def y_def)
  have "\<lceil>y\<rceil> - 1 < (2::int) ^ nat (bitlen (\<lceil>y\<rceil> - 1))"
    using bitlen_bounds [OF pos] by simp
  then have "\<lceil>y\<rceil> \<le> (2::int) ^ nat (bitlen (\<lceil>y\<rceil> - 1))" by linarith
  then have "real_of_int \<lceil>y\<rceil> \<le> real_of_int (2 ^ nat (bitlen (\<lceil>y\<rceil> - 1)))"
    by (rule of_int_le_iff [THEN iffD2])
  moreover have "y \<le> real_of_int \<lceil>y\<rceil>" by linarith
  moreover have "real_of_int (2 ^ nat (bitlen (\<lceil>y\<rceil> - 1)))
                   = 2 ^ nat (bitlen (\<lceil>y\<rceil> - 1))" by simp
  ultimately have "y \<le> 2 ^ nat (bitlen (\<lceil>y\<rceil> - 1))" by linarith
  then have "y \<le> 2 powi (bitlen (\<lceil>y\<rceil> - 1))"
    by (simp add: power_int_nonneg_exp bitlen_nonneg)
  then have "1 / (2 powi (bitlen (\<lceil>y\<rceil> - 1))) \<le> \<bar>x\<bar>"
    using assms by (simp add: y_def field_simps)
  then show ?thesis
    unfolding e by (simp add: power_int_minus_divide)
qed

lemma roundHalfEven_of_int: "roundHalfEven (real_of_int n) = n"
  by (simp add: roundHalfEven_def)

lemma roundDouble_exact:
  assumes "\<bar>m\<bar> < 2 ^ 53"
  shows "roundDouble (real_of_int m / 2 ^ k) = real_of_int m / 2 ^ k"
proof (cases "m = 0")
  case True
  then show ?thesis by (simp add: roundDouble_def)
next
  case False
  define x where "x = real_of_int m / 2 ^ k"
  define e where "e = exponentOf x - 52"
  have x0: "x \<noteq> 0" using False by (simp add: x_def)
  have xk: "x = real_of_int m * 2 powi (- int k)"
    by (simp add: x_def power_int_minus_divide)
  have "\<bar>real_of_int m\<bar> < 2 ^ 53"
    using assms by (metis of_int_abs of_int_less_numeral_power_cancel_iff)
  then have "\<bar>x\<bar> < 2 ^ 53 * 2 powi (- int k)"
    by (simp add: xk abs_mult)
  also have "\<dots> = 2 powi (53 - int k)"
    by (simp add: power_int_diff power_int_minus_divide)
  finally have "2 powi (exponentOf x) < (2::real) powi (53 - int k)"
    using exponentOf_le [OF x0] by linarith
  then have "exponentOf x < 53 - int k"
    by (smt (verit) power_int_increasing)
  then have le: "0 \<le> - int k - e" by (simp add: e_def)
  have "x / 2 powi e = real_of_int m * 2 powi (- int k - e)"
    by (simp add: xk power_int_diff)
  also have "\<dots> = real_of_int (m * 2 ^ nat (- int k - e))"
    using le by (simp add: power_int_nonneg_exp)
  finally have q: "x / 2 powi e = real_of_int (m * 2 ^ nat (- int k - e))" .
  have "roundDouble x = real_of_int (roundHalfEven (x / 2 powi e)) * 2 powi e"
    using x0 by (simp add: roundDouble_def e_def Let_def)
  also have "\<dots> = (x / 2 powi e) * 2 powi e"
    unfolding q roundHalfEven_of_int ..
  also have "\<dots> = x" by simp
  finally show ?thesis by (simp add: x_def)
qed


lemma addDouble_exact:
  assumes "a + b = real_of_int m / 2 ^ k" "\<bar>m\<bar> < 2 ^ 53"
  shows "addDouble a b = a + b"
  unfolding addDouble_def assms(1) by (rule roundDouble_exact [OF assms(2)])

lemma addDouble_0_1: "addDouble 0 1 = 1"
  using addDouble_exact [of 0 1 1 0] by simp

lemma addDouble_1_5: "addDouble 1 5 = 6"
  using addDouble_exact [of 1 5 6 0] by simp

lemma addDouble_0_2: "addDouble 0 2 = 2"
  using addDouble_exact [of 0 2 2 0] by simp

lemma addDouble_1_2: "addDouble 1 2 = 3"
  using addDouble_exact [of 1 2 3 0] by simp

lemma foldl_addDouble_exact:
  assumes "\<forall>x \<in> set xs. \<exists>n. x = real_of_int n / 2 ^ k"
    and "acc = real_of_int A / 2 ^ k"
    and "(\<bar>acc\<bar> + sum_list (map abs xs)) * 2 ^ k < 2 ^ 53"
  shows "foldl addDouble acc xs = acc + sum_list xs"
  using assms
proof (induction xs arbitrary: acc A)
  case Nil
  then show ?case by simp
next
  case (Cons x xs)
  from Cons.prems(1) obtain n where n: "x = real_of_int n / 2 ^ k" by auto
  have sum: "acc + x = real_of_int (A + n) / 2 ^ k"
    by (simp add: Cons.prems(2) n add_divide_distrib)
  have nn: "0 \<le> sum_list (map abs xs)"
    by (rule sum_list_nonneg) auto
  have "\<bar>acc + x\<bar> * 2 ^ k \<le> (\<bar>acc\<bar> + (\<bar>x\<bar> + sum_list (map abs xs))) * 2 ^ k"
    using nn by (intro mult_right_mono) auto
  also have "\<dots> < 2 ^ 53" using Cons.prems(3) by simp
  finally have b: "\<bar>acc + x\<bar> * 2 ^ k < 2 ^ 53" .
  have "\<bar>acc + x\<bar> * 2 ^ k = \<bar>real_of_int (A + n)\<bar>"
    unfolding sum by (simp add: abs_divide)
  with b have "\<bar>real_of_int (A + n)\<bar> < 2 ^ 53" by simp
  then have m: "\<bar>A + n\<bar> < 2 ^ 53"
    by (metis of_int_abs of_int_less_numeral_power_cancel_iff)
  have step: "addDouble acc x = acc + x"
    by (rule addDouble_exact [OF sum m])
  have "(\<bar>acc + x\<bar> + sum_list (map abs xs)) * 2 ^ k
          \<le> (\<bar>acc\<bar> + (\<bar>x\<bar> + sum_list (map abs xs))) * 2 ^ k"
    by (intro mult_right_mono) auto
  also have "\<dots> < 2 ^ 53" using Cons.prems(3) by simp
  finally have b': "(\<bar>acc + x\<bar> + sum_list (map abs xs)) * 2 ^ k < 2 ^ 53" .
  have "foldl addDouble (acc + x) xs = (acc + x) + sum_list xs"
    using Cons.prems(1) by (intro Cons.IH [OF _ sum b']) simp
  then show ?case by (simp add: step)
qed

lemma totalGivenOf_map:
  "totalGivenOf events = foldl addDouble 0 (map (\<lambda>e. orZero (dosageAmount e)) events)"
  by (simp add: totalGivenOf_def foldl_map)

lemma totalGivenOf_exact:
  assumes "\<forall>e \<in> set events. \<exists>n. orZero (dosageAmount e) = real_of_int n / 2 ^ k"
    and "sum_list (map (\<lambda>e. \<bar>orZero (dosageAmount e)\<bar>) events) * 2 ^ k < 2 ^ 53"
  shows "totalGivenOf events = sum_list (map (\<lambda>e. orZero (dosageAmount e)) events)"
proof -
  have "foldl addDouble 0 (map (\<lambda>e. orZero (dosageAmount e)) events)
          = 0 + sum_list (map (\<lambda>e. orZero (dosageAmount e)) events)"
  proof (rule foldl_addDouble_exact [where A = 0 and k = k])
    show "\<forall>x \<in> set (map (\<lambda>e. orZero (dosageAmount e)) events). \<exists>n. x = real_of_int n / 2 ^ k"
      using assms(1) by auto
    show "(0::real) = real_of_int 0 / 2 ^ k" by simp
    show "(\<bar>0\<bar> + sum_list (map abs (map (\<lambda>e. orZero (dosageAmount e)) events))) * 2 ^ k
            < 2 ^ 53"
      using assms(2) by (simp add: comp_def)
  qed
  then show ?thesis by (simp add: totalGivenOf_map)
qed

lemma sum_list_perm:
  fixes f :: "'a \<Rightarrow> real"
  assumes "mset xs = mset ys"
  shows "sum_list (map f xs) = sum_list (map f ys)"
proof -
  have "sum_list (map f xs) = sum_mset (image_mset f (mset xs))"
    by (simp flip: sum_mset_sum_list)
  also have "\<dots> = sum_mset (image_mset f (mset ys))"
    using assms by simp
  also have "\<dots> = sum_list (map f ys)"
    by (simp flip: sum_mset_sum_list)
  finally show ?thesis .
qed

lemma stats_totalGiven:
  "updateStatisticsDisplay strict rate now events = Stats s
     \<Longrightarrow> s_totalGiven s = totalGivenOf events"
  by (auto simp: updateStatisticsDisplay_def Let_def
           split: if_splits list.splits option.splits)

lemma stats_needed_from_inputs:
  assumes "0 < rate" "dosageTime e0 = Some t0" "dosageAmount e0 = Some a0"
  shows "\<exists>s. updateStatisticsDisplay strict rate nowDT (e0 # es) = Stats s
           \<and> s_totalNeeded s = \<bar>a0\<bar> + rate * calculateHoursBetween (DT (real_of_int t0)) nowDT
           \<and> s_totalNeeded s
               = rate * (calculateHoursBetween
                           (DT (real_of_int t0 - a0 / rate * 3600000)) (DT (real_of_int t0))
                         + calculateHoursBetween (DT (real_of_int t0)) nowDT)
           \<and> s_totalGiven s = totalGivenOf (e0 # es)
           \<and> s_needed s
               = max 0 (\<bar>a0\<bar> + rate * calculateHoursBetween (DT (real_of_int t0)) nowDT
                        - totalGivenOf (e0 # es))
           \<and> s_half s = Some ((1/2 - s_needed s) / rate)
           \<and> s_one s = Some ((1 - s_needed s) / rate)
           \<and> s_half_time s = Some (plusHours nowDT ((1/2 - s_needed s) / rate))
           \<and> s_one_time s = Some (plusHours nowDT ((1 - s_needed s) / rate))"
proof -
  have "\<bar>a0 * 3600000\<bar> / (rate * 3600000) = \<bar>a0\<bar> / rate"
    by (simp add: abs_mult)
  then have k: "rate * (\<bar>a0 * 3600000\<bar> / (rate * 3600000) + h) = \<bar>a0\<bar> + rate * h" for h
    using assms(1) by (simp add: distrib_left)
  show ?thesis
    using assms by (simp add: updateStatisticsDisplay_def Let_def k)
qed

lemma stats_needed_nonneg:
  "updateStatisticsDisplay strict rate nowDT events = Stats s \<Longrightarrow> 0 \<le> s_needed s"
  by (auto simp: updateStatisticsDisplay_def Let_def
           split: if_splits list.splits option.splits)

lemma Collect_less_2:
  "{f k | k. k < Suc (Suc 0) \<and> Q k}
     = (if Q 0 then {f 0} else {}) \<union> (if Q (Suc 0) then {f (Suc 0)} else {})"
proof -
  have *: "k < Suc (Suc 0) \<longleftrightarrow> k = 0 \<or> k = Suc 0" for k by auto
  show ?thesis by (auto simp: * intro!: gr0I)
qed

lemma Collect_less_2_all:
  "{f k | k. k < Suc (Suc 0)} = {f 0} \<union> {f (Suc 0)}"
proof -
  have *: "k < Suc (Suc 0) \<longleftrightarrow> k = 0 \<or> k = Suc 0" for k by auto
  show ?thesis by (auto simp: *)
qed

section \<open>C5: the total given\<close>

lemma double_2_15: "roundDouble (43/20) = 4841369599423283 / 2251799813685248"
  by code_simp

lemma double_0_05: "roundDouble (1/20) = 3602879701896397 / 72057594037927936"
  by code_simp

lemma total_large_first:
  "totalGivenOf
     [\<lparr>dosageAmount = Some (4841369599423283 / 2251799813685248), dosageTime = Some 0\<rparr>,
      \<lparr>dosageAmount = Some (3602879701896397 / 72057594037927936), dosageTime = Some 0\<rparr>,
      \<lparr>dosageAmount = Some (3602879701896397 / 72057594037927936), dosageTime = Some 0\<rparr>]
   = 5066549580791807 / 2251799813685248"
  by code_simp

lemma total_small_first:
  "totalGivenOf
     [\<lparr>dosageAmount = Some (3602879701896397 / 72057594037927936), dosageTime = Some 0\<rparr>,
      \<lparr>dosageAmount = Some (3602879701896397 / 72057594037927936), dosageTime = Some 0\<rparr>,
      \<lparr>dosageAmount = Some (4841369599423283 / 2251799813685248), dosageTime = Some 0\<rparr>]
   = 9 / 4"
  by code_simp

text \<open>
  Claim C5 says that the total given is the same for every order of the events. The
  total is built by adding doubles from left to right, and each addition rounds. Take
  three doses entered as \<open>2.15\<close>, \<open>0.05\<close> and \<open>0.05\<close> at one instant (the doubles nearest
  to these are the two fractions below): with the large dose first the total is just
  under \<open>2.25\<close>, with the small doses first it is \<open>2.25\<close>.
\<close>

theorem totalGiven_depends_on_order:
  "roundDouble (43/20) = 4841369599423283 / 2251799813685248
   \<and> roundDouble (1/20) = 3602879701896397 / 72057594037927936
   \<and> totalGivenOf
       [\<lparr>dosageAmount = Some (4841369599423283 / 2251799813685248), dosageTime = Some 0\<rparr>,
        \<lparr>dosageAmount = Some (3602879701896397 / 72057594037927936), dosageTime = Some 0\<rparr>,
        \<lparr>dosageAmount = Some (3602879701896397 / 72057594037927936), dosageTime = Some 0\<rparr>]
     = 5066549580791807 / 2251799813685248
   \<and> totalGivenOf
       [\<lparr>dosageAmount = Some (3602879701896397 / 72057594037927936), dosageTime = Some 0\<rparr>,
        \<lparr>dosageAmount = Some (3602879701896397 / 72057594037927936), dosageTime = Some 0\<rparr>,
        \<lparr>dosageAmount = Some (4841369599423283 / 2251799813685248), dosageTime = Some 0\<rparr>]
     = 9 / 4
   \<and> (5066549580791807 / 2251799813685248 :: real) < 9 / 4"
  using double_2_15 double_0_05 total_large_first total_small_first by simp

text \<open>
  Claim C5 as amended. The total given is the left-to-right sum in double arithmetic of
  the amounts, an amount that is \<open>NaN\<close> counting as \<open>0\<close>, and it is the value the
  statistics carry whenever they are written. When every amount is a whole multiple of
  \<open>2^-k\<close> and the absolute amounts add up to less than \<open>2^(53-k)\<close>, no addition rounds:
  the total is the exact sum of the amounts and is the same for every reordering of the
  events.
\<close>

theorem totalGiven_conservation:
  "totalGivenOf events
     = foldl addDouble 0 (map (\<lambda>e. case dosageAmount e of None \<Rightarrow> 0 | Some a \<Rightarrow> a) events)
   \<and> ((\<forall>e \<in> set events. \<exists>n. orZero (dosageAmount e) = real_of_int n / 2 ^ k)
        \<and> sum_list (map (\<lambda>e. \<bar>orZero (dosageAmount e)\<bar>) events) * 2 ^ k < 2 ^ 53
      \<longrightarrow> totalGivenOf events
            = sum_list (map (\<lambda>e. case dosageAmount e of None \<Rightarrow> 0 | Some a \<Rightarrow> a) events)
          \<and> (\<forall>events'. mset events' = mset events
                \<longrightarrow> totalGivenOf events' = totalGivenOf events))
   \<and> (\<forall>strict rate now s. updateStatisticsDisplay strict rate now events = Stats s
         \<longrightarrow> s_totalGiven s = totalGivenOf events)"
proof (intro conjI impI allI)
  have eq: "(\<lambda>e. orZero (dosageAmount e))
              = (\<lambda>e. case dosageAmount e of None \<Rightarrow> 0 | Some a \<Rightarrow> a)"
    by (rule ext) (simp split: option.split)
  show "totalGivenOf events
     = foldl addDouble 0 (map (\<lambda>e. case dosageAmount e of None \<Rightarrow> 0 | Some a \<Rightarrow> a) events)"
    by (simp add: totalGivenOf_map eq)
  {
    assume h: "(\<forall>e \<in> set events. \<exists>n. orZero (dosageAmount e) = real_of_int n / 2 ^ k)
        \<and> sum_list (map (\<lambda>e. \<bar>orZero (dosageAmount e)\<bar>) events) * 2 ^ k < 2 ^ 53"
    then have ex: "totalGivenOf events = sum_list (map (\<lambda>e. orZero (dosageAmount e)) events)"
      by (intro totalGivenOf_exact [where k = k]) simp_all
    then show "totalGivenOf events
            = sum_list (map (\<lambda>e. case dosageAmount e of None \<Rightarrow> 0 | Some a \<Rightarrow> a) events)"
      by (simp add: eq)
    fix events' :: "event list"
    assume m: "mset events' = mset events"
    then have s: "set events' = set events" by (rule mset_eq_setD)
    have a: "sum_list (map (\<lambda>e. \<bar>orZero (dosageAmount e)\<bar>) events')
               = sum_list (map (\<lambda>e. \<bar>orZero (dosageAmount e)\<bar>) events)"
      by (rule sum_list_perm [OF m])
    have "totalGivenOf events' = sum_list (map (\<lambda>e. orZero (dosageAmount e)) events')"
      using h by (intro totalGivenOf_exact [where k = k]) (simp_all add: s a)
    also have "\<dots> = sum_list (map (\<lambda>e. orZero (dosageAmount e)) events)"
      by (rule sum_list_perm [OF m])
    finally show "totalGivenOf events' = totalGivenOf events"
      by (simp add: ex)
  }
  fix strict rate now s
  assume "updateStatisticsDisplay strict rate now events = Stats s"
  then show "s_totalGiven s = totalGivenOf events"
    by (rule stats_totalGiven)
qed

theorem totalGiven_conservation_witness:
  "sum_list (map (\<lambda>e. \<bar>orZero (dosageAmount e)\<bar>)
       [\<lparr>dosageAmount = Some 1, dosageTime = Some 0\<rparr>,
        \<lparr>dosageAmount = None, dosageTime = Some 5\<rparr>,
        \<lparr>dosageAmount = Some (1/2), dosageTime = Some 9\<rparr>]) * 2 ^ 1 < (2::real) ^ 53
   \<and> mset [\<lparr>dosageAmount = Some (1/2), dosageTime = Some 9\<rparr>,
           \<lparr>dosageAmount = Some 1, dosageTime = Some 0\<rparr>,
           \<lparr>dosageAmount = None, dosageTime = Some 5\<rparr>]
     = mset [\<lparr>dosageAmount = Some 1, dosageTime = Some 0\<rparr>,
             \<lparr>dosageAmount = None, dosageTime = Some 5\<rparr>,
             \<lparr>dosageAmount = Some (1/2), dosageTime = Some 9\<rparr>]
   \<and> totalGivenOf [\<lparr>dosageAmount = Some 1, dosageTime = Some 0\<rparr>,
                   \<lparr>dosageAmount = None, dosageTime = Some 5\<rparr>,
                   \<lparr>dosageAmount = Some (1/2), dosageTime = Some 9\<rparr>] = 3/2
   \<and> totalGivenOf [\<lparr>dosageAmount = Some (1/2), dosageTime = Some 9\<rparr>,
                   \<lparr>dosageAmount = Some 1, dosageTime = Some 0\<rparr>,
                   \<lparr>dosageAmount = None, dosageTime = Some 5\<rparr>] = 3/2
   \<and> (\<exists>s. updateStatisticsDisplay False 1 (DT 9)
              [\<lparr>dosageAmount = Some 1, dosageTime = Some 0\<rparr>,
               \<lparr>dosageAmount = None, dosageTime = Some 5\<rparr>,
               \<lparr>dosageAmount = Some (1/2), dosageTime = Some 9\<rparr>] = Stats s
          \<and> s_totalGiven s = 3/2)"
proof -
  let ?A = "[\<lparr>dosageAmount = Some 1, dosageTime = Some 0\<rparr>,
             \<lparr>dosageAmount = None, dosageTime = Some 5\<rparr>,
             \<lparr>dosageAmount = Some (1/2), dosageTime = Some 9\<rparr>]"
  let ?B = "[\<lparr>dosageAmount = Some (1/2), dosageTime = Some 9\<rparr>,
             \<lparr>dosageAmount = Some 1, dosageTime = Some 0\<rparr>,
             \<lparr>dosageAmount = None, dosageTime = Some 5\<rparr>]"
  have d: "\<forall>e \<in> set ?A. \<exists>n. orZero (dosageAmount e) = real_of_int n / 2 ^ 1"
  proof -
    have "(1::real) = real_of_int 2 / 2 ^ 1" "(0::real) = real_of_int 0 / 2 ^ 1"
      "(1/2::real) = real_of_int 1 / 2 ^ 1"
      by simp_all
    then show ?thesis by (simp del: of_int_numeral of_int_1 of_int_0)
  qed
  have b: "sum_list (map (\<lambda>e. \<bar>orZero (dosageAmount e)\<bar>) ?A) * 2 ^ 1 < 2 ^ 53"
    by simp
  have m: "mset ?B = mset ?A"
    by simp
  note t = totalGiven_conservation [of ?A 1, THEN conjunct2, THEN conjunct1, THEN mp, OF conjI [OF d b]]
  have v: "totalGivenOf ?A = 3/2"
    using t [THEN conjunct1] by simp
  have p: "totalGivenOf ?B = totalGivenOf ?A"
    using t [THEN conjunct2] m by blast
  obtain s where s: "updateStatisticsDisplay False 1 (DT 9) ?A = Stats s"
    using stats_needed_from_inputs
            [of 1 "\<lparr>dosageAmount = Some 1, dosageTime = Some 0\<rparr>" 0 1 False "DT 9"
                "[\<lparr>dosageAmount = None, dosageTime = Some 5\<rparr>,
                  \<lparr>dosageAmount = Some (1/2), dosageTime = Some 9\<rparr>]"]
    by auto
  have g: "s_totalGiven s = 3/2"
    using totalGiven_conservation [of ?A 1, THEN conjunct2, THEN conjunct2] s v by auto
  show ?thesis
    using b m v p s g by simp
qed

section \<open>C3: an empty list of events\<close>

lemma sortedEvents_Nil: "sortedEvents [] = []"
  by (simp add: sortedEvents_def map_filter_simps)

text \<open>
  Claim C3 says that for every rate an empty list leaves every statistic unavailable.
  With the rate \<open>1\<close> the call returns before it writes anything: elements that showed
  numbers keep them.
\<close>

theorem empty_events_rate_nonzero_untouched:
  "updateStatisticsDisplay False 1 (DT 0) [] = Untouched
   \<and> render (updateStatisticsDisplay False 1 (DT 0) [])
        \<lparr> needed = Shown 2, totalGiven = Shown 1, totalNeeded = Shown 3,
          half = Shown (-18), half_time = Clock (DT 21600000),
          one_dose = Shown (-12), one_time = Clock (DT 43200000) \<rparr>
      = \<lparr> needed = Shown 2, totalGiven = Shown 1, totalNeeded = Shown 3,
          half = Shown (-18), half_time = Clock (DT 21600000),
          one_dose = Shown (-12), one_time = Clock (DT 43200000) \<rparr>"
  by (simp add: updateStatisticsDisplay_def)

text \<open>
  Claim C3 as amended. With the rate \<open>0\<close> an empty list sets all seven statistic
  elements to \<open>N/A\<close>, whatever the time and whatever they showed; and for every rate the
  curve of an empty list is empty and no chart is drawn.
\<close>

theorem empty_events_unavailable:
  "updateStatisticsDisplay strict 0 nowDT [] = AllNA
   \<and> render (updateStatisticsDisplay strict 0 nowDT []) d
       = \<lparr> needed = NA, totalGiven = NA, totalNeeded = NA, half = NA, half_time = NA,
           one_dose = NA, one_time = NA \<rparr>
   \<and> calculatePlotData strict r nowDT [] = Some \<lparr> labels = [], neededDataPoints = [] \<rparr>
   \<and> plotDosageGraph strict r nowDT [] = NoChart"
  by (simp add: updateStatisticsDisplay_def calculatePlotData_def plotDosageGraph_def
        sortedEvents_Nil)

section \<open>C6: the rate\<close>

text \<open>
  Claim C6 says that the rate is never negative. \<open>updateRateDisplay\<close> divides the two
  parsed inputs whatever their signs: with \<open>-1\<close> pills every \<open>8\<close> hours the rate is
  \<open>-1/8\<close>.
\<close>

theorem updateRateDisplay_negative:
  "updateRateDisplay (Some (-1)) (Some 8) = - (1/8) \<and> updateRateDisplay (Some (-1)) (Some 8) < 0"
  by (simp add: updateRateDisplay_def isNaN_def)

text \<open>
  Claim C6 as amended. The rate is \<open>0\<close> when either input is \<open>NaN\<close> or the hours are
  \<open>0\<close>; otherwise it is the quotient of the two inputs; and it is not negative when
  neither input is negative.
\<close>

theorem updateRateDisplay_rate:
  "(pills = None \<or> hours = None \<or> hours = Some 0 \<longrightarrow> updateRateDisplay pills hours = 0)
   \<and> (\<forall>p h. pills = Some p \<and> hours = Some h \<and> h \<noteq> 0
         \<longrightarrow> updateRateDisplay pills hours = p / h)
   \<and> (\<forall>p h. pills = Some p \<and> hours = Some h \<and> 0 \<le> p \<and> 0 \<le> h
         \<longrightarrow> 0 \<le> updateRateDisplay pills hours)"
  by (auto simp: updateRateDisplay_def isNaN_def)

theorem updateRateDisplay_rate_witness:
  "updateRateDisplay None (Some 8) = 0 \<and> updateRateDisplay (Some 1) None = 0
   \<and> updateRateDisplay (Some 1) (Some 0) = 0
   \<and> updateRateDisplay (Some 1) (Some 8) = 1 / 8
   \<and> 0 \<le> updateRateDisplay (Some 1) (Some 8)"
  using updateRateDisplay_rate [of None "Some 8"] updateRateDisplay_rate [of "Some 1" None]
    updateRateDisplay_rate [of "Some 1" "Some 0"] updateRateDisplay_rate [of "Some 1" "Some 8"]
  by simp

section \<open>C7: the two threshold statistics\<close>

lemma stats_thresholds:
  "updateStatisticsDisplay strict rate now events = Stats s
     \<Longrightarrow> (if 0 < rate
          then s_half s = Some ((1/2 - s_needed s) / rate)
             \<and> s_one s = Some ((1 - s_needed s) / rate)
          else s_half s = None \<and> s_one s = None)"
  by (auto simp: updateStatisticsDisplay_def Let_def
           split: if_splits list.splits option.splits)

text \<open>
  Claim C7. The two thresholds are to be marked unavailable for every list of events
  when the rate is \<open>0\<close>, and the branch that writes \<open>N/A\<close> for a rate that is not positive
  is there (script.js 300 to 302). It is reached only after the first amount has been
  divided by the rate and the quotient handed to \<open>minus\<close> (264, 265). With the rate \<open>0\<close>
  and a first event of amount \<open>0\<close> the quotient is \<open>NaN\<close>, \<open>minus\<close> throws, and the call
  ends before it has written any element: every statistic, the two thresholds among
  them, keeps the text it had. The same happens when the first amount is \<open>NaN\<close>, and, with
  a date library that refuses an infinite offset, for every first amount.
\<close>

theorem thresholds_zero_rate_throws:
  "updateStatisticsDisplay strict 0 nowDT
      (\<lparr>dosageAmount = Some 0, dosageTime = Some t\<rparr> # es) = Threw
   \<and> render (updateStatisticsDisplay strict 0 nowDT
               (\<lparr>dosageAmount = Some 0, dosageTime = Some t\<rparr> # es)) d = d
   \<and> updateStatisticsDisplay strict 0 nowDT
      (\<lparr>dosageAmount = None, dosageTime = Some t\<rparr> # es) = Threw
   \<and> updateStatisticsDisplay True 0 nowDT
      (\<lparr>dosageAmount = Some a, dosageTime = Some t\<rparr> # es) = Threw"
  by (simp add: updateStatisticsDisplay_def Let_def)

section \<open>C8: the clamped deficit\<close>

text \<open>
  Claim C8 says that the amount needed now is the rate times the hours since the first
  dose, less the total given, floored at \<open>0\<close>. For the rate \<open>1\<close>, one dose of \<open>2\<close> and the
  current time an hour later the statistics show \<open>1\<close> as needed (and \<open>3\<close> as the ideal
  total), while the rate times the hours since the first dose, less the total given, is
  negative and its floor is \<open>0\<close>.
\<close>

theorem currentNeeded_counts_first_dose:
  "updateStatisticsDisplay False 1 (DT 3600000)
      [\<lparr>dosageAmount = Some 2, dosageTime = Some 0\<rparr>]
     = Stats \<lparr>s_needed = 1, s_totalGiven = 2, s_totalNeeded = 3, s_half = Some (- 1/2),
              s_half_time = Some (DT 1800000), s_one = Some 0,
              s_one_time = Some (DT 3600000)\<rparr>
   \<and> max 0 (1 * calculateHoursBetween (DT 0) (DT 3600000)
             - totalGivenOf [\<lparr>dosageAmount = Some 2, dosageTime = Some 0\<rparr>]) = 0"
  by (simp add: updateStatisticsDisplay_def totalGivenOf_def Let_def addDouble_0_2)

text \<open>
  Claim C8 as amended. For a positive rate and a list whose first element has a valid
  time \<open>t0\<close> and a numeric amount \<open>a0\<close>, the statistics are written and the amount needed
  now is \<open>max 0 (|a0| + rate * hoursBetween t0 now - totalGiven)\<close>: the ideal total
  counts the first dose on top of the rate times the hours since the first dose. Whenever
  the statistics are written, for any rate, the amount needed is not negative. The curve
  is not floored: for two doses of \<open>1\<close> at the same instant and the rate \<open>1\<close> its last
  value is \<open>-1\<close>.
\<close>

theorem currentNeeded_clamped:
  "(\<forall>e0 es t0 a0.
      0 < rate \<and> events = e0 # es \<and> dosageTime e0 = Some t0 \<and> dosageAmount e0 = Some a0
      \<longrightarrow> (\<exists>s. updateStatisticsDisplay strict rate nowDT events = Stats s
            \<and> s_needed s
                = max 0 (\<bar>a0\<bar> + rate * calculateHoursBetween (DT (real_of_int t0)) nowDT
                         - totalGivenOf events)))
   \<and> (\<forall>s. updateStatisticsDisplay strict rate nowDT events = Stats s \<longrightarrow> 0 \<le> s_needed s)
   \<and> (\<exists>p. calculatePlotData strict 1 (DT 0)
              [\<lparr>dosageAmount = Some 1, dosageTime = Some 0\<rparr>,
               \<lparr>dosageAmount = Some 1, dosageTime = Some 0\<rparr>] = Some p
          \<and> last (neededDataPoints p) = - 1)"
proof (intro conjI allI impI)
  fix e0 es t0 a0
  assume a: "0 < rate \<and> events = e0 # es \<and> dosageTime e0 = Some t0 \<and> dosageAmount e0 = Some a0"
  then show "\<exists>s. updateStatisticsDisplay strict rate nowDT events = Stats s
            \<and> s_needed s
                = max 0 (\<bar>a0\<bar> + rate * calculateHoursBetween (DT (real_of_int t0)) nowDT
                         - totalGivenOf events)"
    using stats_needed_from_inputs [of rate e0 t0 a0 strict nowDT es] by auto
next
  fix s assume "updateStatisticsDisplay strict rate nowDT events = Stats s"
  then show "0 \<le> s_needed s" by (rule stats_needed_nonneg)
next
  show "\<exists>p. calculatePlotData strict 1 (DT 0)
              [\<lparr>dosageAmount = Some 1, dosageTime = Some 0\<rparr>,
               \<lparr>dosageAmount = Some 1, dosageTime = Some 0\<rparr>] = Some p
          \<and> last (neededDataPoints p) = - 1"
    by (simp add: calculatePlotData_def sortedEvents_def map_filter_simps plotEvents_def plotNow_def Let_def)
qed

theorem currentNeeded_clamped_witness:
  "(\<exists>s. updateStatisticsDisplay False 1 (DT 3600000)
            [\<lparr>dosageAmount = Some 1, dosageTime = Some 0\<rparr>,
             \<lparr>dosageAmount = Some 5, dosageTime = Some 0\<rparr>] = Stats s
        \<and> s_needed s = 0 \<and> 0 \<le> s_needed s \<and> s_totalNeeded s = 2 \<and> s_totalGiven s = 6)
   \<and> (\<exists>s. updateStatisticsDisplay False 1 (DT 3600000)
            [\<lparr>dosageAmount = Some 2, dosageTime = Some 0\<rparr>] = Stats s
        \<and> s_needed s = 1)"
proof -
  let ?ev = "[\<lparr>dosageAmount = Some 1, dosageTime = Some 0\<rparr>,
       \<lparr>dosageAmount = Some 5, dosageTime = Some 0\<rparr>]"
  let ?e2 = "[\<lparr>dosageAmount = Some 2, dosageTime = Some 0\<rparr>]"
  have g: "totalGivenOf ?ev = 6" "totalGivenOf ?e2 = 2"
    by (simp_all add: totalGivenOf_def addDouble_0_1 addDouble_1_5 addDouble_0_2)
  have h: "(0::real) < 1 \<and> ?ev = \<lparr>dosageAmount = Some 1, dosageTime = Some 0\<rparr>
                 # [\<lparr>dosageAmount = Some 5, dosageTime = Some 0\<rparr>]
      \<and> dosageTime \<lparr>dosageAmount = Some (1::real), dosageTime = Some 0\<rparr> = Some 0
      \<and> dosageAmount \<lparr>dosageAmount = Some (1::real), dosageTime = Some 0\<rparr> = Some 1"
    by simp
  have h2: "(0::real) < 1 \<and> ?e2 = \<lparr>dosageAmount = Some 2, dosageTime = Some 0\<rparr> # []
      \<and> dosageTime \<lparr>dosageAmount = Some (2::real), dosageTime = Some 0\<rparr> = Some 0
      \<and> dosageAmount \<lparr>dosageAmount = Some (2::real), dosageTime = Some 0\<rparr> = Some 2"
    by simp
  from currentNeeded_clamped [of 1 ?ev False "DT 3600000", THEN conjunct1, rule_format, OF h]
  obtain s where s: "updateStatisticsDisplay False 1 (DT 3600000) ?ev = Stats s"
     "s_needed s = max 0 (\<bar>1\<bar> + 1 * calculateHoursBetween (DT (real_of_int 0)) (DT 3600000)
                         - totalGivenOf ?ev)"
    by blast
  have n: "s_needed s = 0" using s(2) by (simp add: g)
  have r: "s_totalNeeded s = 2 \<and> s_totalGiven s = 6"
    using s(1) by (auto simp add: updateStatisticsDisplay_def g Let_def)
  from currentNeeded_clamped [of 1 ?e2 False "DT 3600000", THEN conjunct1, rule_format, OF h2]
  obtain s2 where s2: "updateStatisticsDisplay False 1 (DT 3600000) ?e2 = Stats s2"
     "s_needed s2 = max 0 (\<bar>2\<bar> + 1 * calculateHoursBetween (DT (real_of_int 0)) (DT 3600000)
                         - totalGivenOf ?e2)"
    by blast
  have n2: "s_needed s2 = 1" using s2(2) by (simp add: g)
  have nn: "0 \<le> s_needed s"
    using currentNeeded_clamped [of 1 ?ev False "DT 3600000", THEN conjunct2, THEN conjunct1]
      s(1) by blast
  show ?thesis using s(1) n nn r s2(1) n2 by blast
qed

section \<open>C9: removing a row of the sheet\<close>

lemma digits_numeral:
  "digits (numeral k) [] = None"
  "digits (numeral k) (c # cs) = (if isDigit c then digits (pred_numeral k) cs else None)"
  "digits 1 [] = None"
  "digits 1 (c # cs) = (if isDigit c then Some cs else None)"
  by (simp_all add: numeral_eq_Suc)

lemmas iso_simps =
  isoDateTimeRegex_def isoDateOnlyRegex_def datePart_def timePart_def fractionRests_def
  zoneToEnd_def isDigit_def digits_numeral map_filter_simps trim_def isSpace_def str_def











section \<open>C10: the client's list after a confirmed removal\<close>

lemma differsInMillis_iff: "differsInMillis m t \<longleftrightarrow> m \<noteq> Some t"
  by (cases m) simp_all

lemma scanRows_bound: "scanRows t sh n = Some i \<Longrightarrow> 1 \<le> i \<and> i \<le> n"
  by (induction n) (auto split: if_splits)

lemma handleRemoveData_one_row:
  assumes "handleRemoveData param sh = (Removed True, sh')"
  shows "Suc (length sh') = length (internalEnsureHeaders sh)"
proof -
  from assms obtain p i where
    i: "scanRows (trim p) (internalEnsureHeaders sh) (length (internalEnsureHeaders sh) - 1) = Some i"
    and sh': "sh' = deleteRow i (internalEnsureHeaders sh)"
    by (auto simp: handleRemoveData_def Let_def split: option.splits if_splits)
  from scanRows_bound [OF i] have "i < length (internalEnsureHeaders sh)" by auto
  then show ?thesis by (simp add: sh' deleteRow_def)
qed

text \<open>
  Claim C10. After the endpoint confirmed a removal for the time \<open>t\<close>, the client keeps
  exactly the events whose time is not \<open>t\<close>: none with that time is left, and as many
  entries go as carried it, however many that is. The endpoint, when it reports a
  removal, has deleted one row.
\<close>

theorem removeDosageEntryHandler_drops_all:
  "(success result \<and> removed result \<longrightarrow>
     removeDosageEntryHandler (Some t) result eventsData
       = filter (\<lambda>e. dosageTime e \<noteq> Some t) eventsData
     \<and> (\<forall>e \<in> set (removeDosageEntryHandler (Some t) result eventsData). dosageTime e \<noteq> Some t)
     \<and> length eventsData
         = length (removeDosageEntryHandler (Some t) result eventsData)
           + length (filter (\<lambda>e. dosageTime e = Some t) eventsData))
   \<and> (\<forall>sh'. handleRemoveData param sh = (Removed True, sh')
         \<longrightarrow> Suc (length sh') = length (internalEnsureHeaders sh))"
proof (intro conjI impI allI)
  assume a: "success result \<and> removed result"
  show eq: "removeDosageEntryHandler (Some t) result eventsData
       = filter (\<lambda>e. dosageTime e \<noteq> Some t) eventsData"
    using a by (simp add: removeDosageEntryHandler_def differsInMillis_iff)
  show "\<forall>e \<in> set (removeDosageEntryHandler (Some t) result eventsData). dosageTime e \<noteq> Some t"
    unfolding eq by simp
  show "length eventsData
         = length (removeDosageEntryHandler (Some t) result eventsData)
           + length (filter (\<lambda>e. dosageTime e = Some t) eventsData)"
    unfolding eq
    using sum_length_filter_compl [of "\<lambda>e. dosageTime e = Some t" eventsData] by simp
next
  fix sh' assume "handleRemoveData param sh = (Removed True, sh')"
  then show "Suc (length sh') = length (internalEnsureHeaders sh)"
    by (rule handleRemoveData_one_row)
qed

lemma handleRemoveData_example:
  "handleRemoveData (Some (str ''2024-05-01T10:00:00.000-04:00''))
     [(CStr (str ''Date''), CStr (str ''Amount'')),
      (CStr (str ''2024-05-01T10:00:00.000-04:00''), COther),
      (CStr (str ''2024-05-01T10:00:00.000-04:00''), COther)]
   = (Removed True,
      [(CStr (str ''Date''), CStr (str ''Amount'')),
       (CStr (str ''2024-05-01T10:00:00.000-04:00''), COther)])"
  by (simp add: handleRemoveData_def Let_def iso_simps internalEnsureHeaders_def
        DATE_HEADER_def AMOUNT_HEADER_def deleteRow_def)

theorem removeDosageEntryHandler_drops_all_witness:
  "success \<lparr>success = True, removed = True\<rparr> \<and> removed \<lparr>success = True, removed = True\<rparr>
   \<and> removeDosageEntryHandler (Some 5) \<lparr>success = True, removed = True\<rparr>
        [\<lparr>dosageAmount = Some 1, dosageTime = Some 5\<rparr>,
         \<lparr>dosageAmount = Some 2, dosageTime = Some 5\<rparr>,
         \<lparr>dosageAmount = Some 3, dosageTime = Some 7\<rparr>]
      = [\<lparr>dosageAmount = Some 3, dosageTime = Some 7\<rparr>]
   \<and> handleRemoveData (Some (str ''2024-05-01T10:00:00.000-04:00''))
        [(CStr (str ''Date''), CStr (str ''Amount'')),
         (CStr (str ''2024-05-01T10:00:00.000-04:00''), COther),
         (CStr (str ''2024-05-01T10:00:00.000-04:00''), COther)]
      = (Removed True,
         [(CStr (str ''Date''), CStr (str ''Amount'')),
          (CStr (str ''2024-05-01T10:00:00.000-04:00''), COther)])
   \<and> Suc (length [(CStr (str ''Date''), CStr (str ''Amount'')),
          (CStr (str ''2024-05-01T10:00:00.000-04:00''), COther)])
      = length (internalEnsureHeaders
         [(CStr (str ''Date''), CStr (str ''Amount'')),
          (CStr (str ''2024-05-01T10:00:00.000-04:00''), COther),
          (CStr (str ''2024-05-01T10:00:00.000-04:00''), COther)])"
proof -
  note t = removeDosageEntryHandler_drops_all
      [of "\<lparr>success = True, removed = True\<rparr>" 5
        "[\<lparr>dosageAmount = Some 1, dosageTime = Some 5\<rparr>,
          \<lparr>dosageAmount = Some 2, dosageTime = Some 5\<rparr>,
          \<lparr>dosageAmount = Some 3, dosageTime = Some 7\<rparr>]"
        "Some (str ''2024-05-01T10:00:00.000-04:00'')"
        "[(CStr (str ''Date''), CStr (str ''Amount'')),
          (CStr (str ''2024-05-01T10:00:00.000-04:00''), COther),
          (CStr (str ''2024-05-01T10:00:00.000-04:00''), COther)]"]
  have a: "removeDosageEntryHandler (Some 5) \<lparr>success = True, removed = True\<rparr>
        [\<lparr>dosageAmount = Some 1, dosageTime = Some 5\<rparr>,
         \<lparr>dosageAmount = Some 2, dosageTime = Some 5\<rparr>,
         \<lparr>dosageAmount = Some 3, dosageTime = Some 7\<rparr>]
      = [\<lparr>dosageAmount = Some 3, dosageTime = Some 7\<rparr>]"
    using conjunct1 [OF t] by simp
  have b: "Suc (length [(CStr (str ''Date''), CStr (str ''Amount'')),
          (CStr (str ''2024-05-01T10:00:00.000-04:00''), COther)])
      = length (internalEnsureHeaders
         [(CStr (str ''Date''), CStr (str ''Amount'')),
          (CStr (str ''2024-05-01T10:00:00.000-04:00''), COther),
          (CStr (str ''2024-05-01T10:00:00.000-04:00''), COther)])"
    using conjunct2 [OF t] handleRemoveData_example by blast
  show ?thesis using a b handleRemoveData_example by simp
qed

section \<open>The loop of the curve\<close>

lemma plotStep_push:
  assumes "labels p \<noteq> []" "\<not> equalsDT (DT (real_of_int t)) (last (labels p))"
  shows "plotStep r proj (p, c) (t, a) =
     (\<lparr> labels = labels p @ [DT (real_of_int t - 1), DT (real_of_int t)],
        neededDataPoints = neededDataPoints p
          @ [r * calculateHoursBetween proj (DT (real_of_int t)) - c,
             r * calculateHoursBetween proj (DT (real_of_int t)) - (c + a)] \<rparr>, c + a)"
  using assms by (simp add: Let_def)

lemma plotStep_same:
  assumes "labels p \<noteq> []" "equalsDT (DT (real_of_int t)) (last (labels p))"
  shows "plotStep r proj (p, c) (t, a) =
     (\<lparr> labels = labels p @ [DT (real_of_int t)],
        neededDataPoints = (neededDataPoints p)
            [length (neededDataPoints p) - 1
               := r * calculateHoursBetween proj (DT (real_of_int t)) - c]
          @ [r * calculateHoursBetween proj (DT (real_of_int t)) - (c + a)] \<rparr>, c + a)"
  using assms by (simp add: Let_def)

lemma plotStep_last:
  assumes "labels p \<noteq> []"
  shows "snd (plotStep r proj (p, c) (t, a)) = c + a"
    and "labels (fst (plotStep r proj (p, c) (t, a))) \<noteq> []"
    and "last (labels (fst (plotStep r proj (p, c) (t, a)))) = DT (real_of_int t)"
    and "last (neededDataPoints (fst (plotStep r proj (p, c) (t, a))))
           = r * calculateHoursBetween proj (DT (real_of_int t)) - (c + a)"
    and "length (labels p) = length (neededDataPoints p) \<Longrightarrow>
           length (labels (fst (plotStep r proj (p, c) (t, a))))
             = length (neededDataPoints (fst (plotStep r proj (p, c) (t, a))))"
  using assms
  by (cases "equalsDT (DT (real_of_int t)) (last (labels p))";
      simp add: plotStep_push plotStep_same del: plotStep.simps)+

lemma foldl_plotStep:
  assumes "labels (fst st) \<noteq> []"
  shows "snd (foldl (plotStep r proj) st es) = snd st + sum_list (map snd es)
     \<and> labels (fst (foldl (plotStep r proj) st es)) \<noteq> []
     \<and> (length (labels (fst st)) = length (neededDataPoints (fst st)) \<longrightarrow>
           length (labels (fst (foldl (plotStep r proj) st es)))
             = length (neededDataPoints (fst (foldl (plotStep r proj) st es))))"
proof (induction es rule: rev_induct)
  case Nil
  show ?case using assms by simp
next
  case (snoc e es)
  obtain p c where st: "foldl (plotStep r proj) st es = (p, c)"
    by (cases "foldl (plotStep r proj) st es")
  obtain t a where e: "e = (t, a)" by (cases e)
  from snoc st have p: "labels p \<noteq> []" "c = snd st + sum_list (map snd es)"
    "length (labels (fst st)) = length (neededDataPoints (fst st)) \<longrightarrow>
       length (labels p) = length (neededDataPoints p)"
    by simp_all
  show ?case
    using p plotStep_last [OF p(1), of r proj c t a]
    by (simp add: st e del: plotStep.simps)
qed

lemma foldl_plotStep_last:
  assumes "labels (fst st) \<noteq> []" "es \<noteq> []"
  shows "last (labels (fst (foldl (plotStep r proj) st es))) = DT (real_of_int (fst (last es)))
     \<and> last (neededDataPoints (fst (foldl (plotStep r proj) st es)))
         = r * calculateHoursBetween proj (DT (real_of_int (fst (last es))))
           - (snd st + sum_list (map snd es))"
proof -
  from assms(2) obtain es' e where es: "es = es' @ [e]"
    by (metis rev_exhaust)
  obtain p c where st: "foldl (plotStep r proj) st es' = (p, c)"
    by (cases "foldl (plotStep r proj) st es'")
  obtain t a where e: "e = (t, a)" by (cases e)
  from foldl_plotStep [OF assms(1), of r proj es'] st
  have p: "labels p \<noteq> []" "c = snd st + sum_list (map snd es')"
    by simp_all
  show ?thesis
    using p(2) plotStep_last [OF p(1), of r proj c t a]
    by (simp add: es st e del: plotStep.simps)
qed


lemma plotEvents_props:
  assumes "S \<noteq> []"
  shows "snd (plotEvents r proj S) = sum_list (map snd S)"
    and "labels (fst (plotEvents r proj S)) \<noteq> []"
    and "length (labels (fst (plotEvents r proj S)))
           = length (neededDataPoints (fst (plotEvents r proj S)))"
    and "last (labels (fst (plotEvents r proj S))) = DT (real_of_int (fst (last S)))"
    and "last (neededDataPoints (fst (plotEvents r proj S)))
           = r * calculateHoursBetween proj (DT (real_of_int (fst (last S))))
             - sum_list (map snd S)"
proof -
  let ?init = "(\<lparr> labels = [proj, minusMillisecond (DT (real_of_int (fst (hd S))))],
                 neededDataPoints = [0, r * calculateHoursBetween proj (DT (real_of_int (fst (hd S))))] \<rparr>,
               0::real)"
  have pe: "plotEvents r proj S = foldl (plotStep r proj) ?init S"
    by (simp add: plotEvents_def Let_def)
  have ne: "labels (fst ?init) \<noteq> []" by simp
  note f = foldl_plotStep [OF ne, of r proj S]
  note l = foldl_plotStep_last [OF ne assms, of r proj]
  show "snd (plotEvents r proj S) = sum_list (map snd S)"
    unfolding pe using f by simp
  show "labels (fst (plotEvents r proj S)) \<noteq> []"
    unfolding pe using f by simp
  show "length (labels (fst (plotEvents r proj S)))
           = length (neededDataPoints (fst (plotEvents r proj S)))"
    unfolding pe using f by simp
  show "last (labels (fst (plotEvents r proj S))) = DT (real_of_int (fst (last S)))"
    unfolding pe using l by simp
  show "last (neededDataPoints (fst (plotEvents r proj S)))
           = r * calculateHoursBetween proj (DT (real_of_int (fst (last S))))
             - sum_list (map snd S)"
    unfolding pe using l by simp
qed

lemma update_last:
  "xs \<noteq> [] \<Longrightarrow> xs[length xs - Suc 0 := v] = butlast xs @ [v]"
  by (cases xs rule: rev_cases) simp_all

lemma calculatePlotData_positive_rate:
  assumes "0 < rate" "sortedEvents events \<noteq> []"
  shows "calculatePlotData strict rate nowDT events =
     Some (plotNow rate
            (DT (real_of_int (fst (hd (sortedEvents events)))
                  - snd (hd (sortedEvents events)) / rate * 3600000))
            nowDT
            (plotEvents rate
               (DT (real_of_int (fst (hd (sortedEvents events)))
                     - snd (hd (sortedEvents events)) / rate * 3600000))
               (sortedEvents events)))"
  using assms by (simp add: calculatePlotData_def Let_def)

lemma update_last_id:
  "xs \<noteq> [] \<Longrightarrow> xs[length xs - Suc 0 := last xs] = xs"
  by (cases xs rule: rev_cases) simp_all

lemma plotStep_zip_push:
  assumes "labels p \<noteq> []" "length (labels p) = length (neededDataPoints p)"
    "\<not> equalsDT (DT (real_of_int t)) (last (labels p))"
  shows "set (zip (labels (fst (plotStep r proj (p, c) (t, a))))
                  (neededDataPoints (fst (plotStep r proj (p, c) (t, a)))))
     = set (zip (labels p) (neededDataPoints p))
       \<union> {(DT (real_of_int t - 1), r * calculateHoursBetween proj (DT (real_of_int t)) - c),
          (DT (real_of_int t), r * calculateHoursBetween proj (DT (real_of_int t)) - (c + a))}"
  using assms(2) by (simp add: plotStep_push [OF assms(1,3)] del: plotStep.simps)

lemma plotStep_zip_same:
  assumes "labels p \<noteq> []" "length (labels p) = length (neededDataPoints p)"
    "equalsDT (DT (real_of_int t)) (last (labels p))"
    "last (neededDataPoints p) = r * calculateHoursBetween proj (DT (real_of_int t)) - c"
  shows "set (zip (labels (fst (plotStep r proj (p, c) (t, a))))
                  (neededDataPoints (fst (plotStep r proj (p, c) (t, a)))))
     = set (zip (labels p) (neededDataPoints p))
       \<union> {(DT (real_of_int t), r * calculateHoursBetween proj (DT (real_of_int t)) - (c + a))}"
proof -
  have ne: "neededDataPoints p \<noteq> []" using assms(1,2) by auto
  have "(neededDataPoints p)
            [length (neededDataPoints p) - 1
               := r * calculateHoursBetween proj (DT (real_of_int t)) - c] = neededDataPoints p"
    using update_last_id [OF ne] assms(4) by simp
  then show ?thesis
    using assms(2) by (simp add: plotStep_same [OF assms(1,3)] del: plotStep.simps)
qed

lemma foldl_plotStep_vertices:
  fixes S :: "valid_event list" and r :: real and proj :: DateTime
  defines "init \<equiv> (\<lparr> labels = [proj, DT (real_of_int (fst (hd S)) - 1)],
                      neededDataPoints
                        = [0, r * calculateHoursBetween proj (DT (real_of_int (fst (hd S))))] \<rparr>,
                    0::real)"
  defines "before \<equiv> \<lambda>k. (DT (real_of_int (fst (S ! k)) - 1),
                          r * calculateHoursBetween proj (DT (real_of_int (fst (S ! k))))
                            - sum_list (map snd (take k S)))"
  defines "atp \<equiv> \<lambda>k. (DT (real_of_int (fst (S ! k))),
                      r * calculateHoursBetween proj (DT (real_of_int (fst (S ! k))))
                        - sum_list (map snd (take (Suc k) S)))"
  assumes "n \<le> length S" "S \<noteq> []"
  shows "set (zip (labels (fst (foldl (plotStep r proj) init (take n S))))
                  (neededDataPoints (fst (foldl (plotStep r proj) init (take n S)))))
     = {(proj, 0), before 0}
       \<union> before ` {k. k < n \<and> (k = 0 \<or> fst (S ! k) \<noteq> fst (S ! (k - 1)))}
       \<union> atp ` {k. k < n}"
  using assms(4)
proof (induction n)
  case 0
  have "hd S = S ! 0" using assms(5) by (simp add: hd_conv_nth)
  then show ?case by (simp add: init_def before_def)
next
  case (Suc n)
  then have n: "n < length S" and IH: "set (zip (labels (fst (foldl (plotStep r proj) init (take n S))))
                  (neededDataPoints (fst (foldl (plotStep r proj) init (take n S)))))
     = {(proj, 0), before 0}
       \<union> before ` {k. k < n \<and> (k = 0 \<or> fst (S ! k) \<noteq> fst (S ! (k - 1)))}
       \<union> atp ` {k. k < n}"
    by simp_all
  obtain p c where st: "foldl (plotStep r proj) init (take n S) = (p, c)"
    by (cases "foldl (plotStep r proj) init (take n S)")
  obtain t a where e: "S ! n = (t, a)" by (cases "S ! n")
  have step: "foldl (plotStep r proj) init (take (Suc n) S) = plotStep r proj (p, c) (t, a)"
    using n by (simp add: take_Suc_conv_app_nth st e del: plotStep.simps)
  have ine: "labels (fst init) \<noteq> []"
    and ilen: "length (labels (fst init)) = length (neededDataPoints (fst init))"
    by (simp_all add: init_def)
  from foldl_plotStep [OF ine, of r proj "take n S"] ilen st
  have p: "labels p \<noteq> []" "length (labels p) = length (neededDataPoints p)"
    and c: "c = sum_list (map snd (take n S))"
    by (simp_all add: init_def)
  have ca: "c + a = sum_list (map snd (take (Suc n) S))"
    using n by (simp add: take_Suc_conv_app_nth c e)
  have sets: "{k. k < Suc n \<and> (k = 0 \<or> fst (S ! k) \<noteq> fst (S ! (k - 1)))}
                = {k. k < n \<and> (k = 0 \<or> fst (S ! k) \<noteq> fst (S ! (k - 1)))}
                  \<union> (if n = 0 \<or> fst (S ! n) \<noteq> fst (S ! (n - 1)) then {n} else {})"
    "{k. k < Suc n} = {k. k < n} \<union> {n}"
    by (auto simp: less_Suc_eq)
  have bn: "before n = (DT (real_of_int t - 1),
                        r * calculateHoursBetween proj (DT (real_of_int t)) - c)"
    by (simp add: before_def e c)
  have an: "atp n = (DT (real_of_int t),
                    r * calculateHoursBetween proj (DT (real_of_int t)) - (c + a))"
    by (simp add: atp_def e ca)
  let ?Z = "set (zip (labels p) (neededDataPoints p))"
  let ?A = "\<lambda>n. {k. k < n \<and> (k = 0 \<or> fst (S ! k) \<noteq> fst (S ! (k - 1)))}"
  have Z: "?Z = {(proj, 0), before 0} \<union> before ` ?A n \<union> atp ` {k. k < n}"
    using IH by (simp only: st fst_conv)
  have B: "atp ` {k. k < Suc n} = atp ` {k. k < n} \<union> {atp n}"
    by (simp only: sets(2) image_Un image_insert image_empty)
  have push: "set (zip (labels (fst (plotStep r proj (p, c) (t, a))))
                  (neededDataPoints (fst (plotStep r proj (p, c) (t, a)))))
                = {(proj, 0), before 0} \<union> before ` ?A (Suc n) \<union> atp ` {k. k < Suc n}"
    if q: "n = 0 \<or> fst (S ! n) \<noteq> fst (S ! (n - 1))"
      and ne: "\<not> equalsDT (DT (real_of_int t)) (last (labels p))"
  proof -
    have A: "before ` ?A (Suc n) = before ` ?A n \<union> {before n}"
      using q by (simp only: sets(1) if_True image_Un image_insert image_empty)
    have "set (zip (labels (fst (plotStep r proj (p, c) (t, a))))
                  (neededDataPoints (fst (plotStep r proj (p, c) (t, a)))))
            = ?Z \<union> {before n, atp n}"
      unfolding bn an by (rule plotStep_zip_push [OF p ne])
    then show ?thesis unfolding Z A B by blast
  qed
  show ?case
  proof (cases "n = 0")
    case True
    then have "p = fst init" using st by simp
    moreover have "hd S = (t, a)" using e True assms(5) by (simp add: hd_conv_nth)
    ultimately have "\<not> equalsDT (DT (real_of_int t)) (last (labels p))"
      by (simp add: init_def)
    with True show ?thesis unfolding step by (intro push) simp_all
  next
    case False
    then have tne: "take n S \<noteq> []" using n by auto
    have lastn: "last (take n S) = S ! (n - 1)"
    proof -
      have "last (take n S) = take n S ! (length (take n S) - 1)"
        using tne by (rule last_conv_nth)
      also have "length (take n S) = n" using n by simp
      also have "take n S ! (n - 1) = S ! (n - 1)" using False by simp
      finally show ?thesis .
    qed
    from foldl_plotStep_last [OF ine tne, of r proj] st
    have l: "last (labels p) = DT (real_of_int (fst (S ! (n - 1))))"
      "last (neededDataPoints p)
         = r * calculateHoursBetween proj (DT (real_of_int (fst (S ! (n - 1))))) - c"
      by (simp_all add: lastn c init_def)
    show ?thesis
    proof (cases "t = fst (S ! (n - 1))")
      case True
      then have eq: "equalsDT (DT (real_of_int t)) (last (labels p))" by (simp add: l)
      have lv: "last (neededDataPoints p) = r * calculateHoursBetween proj (DT (real_of_int t)) - c"
        using l(2) True by simp
      have nq: "\<not> (n = 0 \<or> fst (S ! n) \<noteq> fst (S ! (n - 1)))"
        using True False e by simp
      have A: "before ` ?A (Suc n) = before ` ?A n"
        using nq by (simp only: sets(1) if_False Un_empty_right)
      have "set (zip (labels (fst (plotStep r proj (p, c) (t, a))))
                  (neededDataPoints (fst (plotStep r proj (p, c) (t, a)))))
            = ?Z \<union> {atp n}"
        unfolding an by (rule plotStep_zip_same [OF p eq lv])
      then show ?thesis unfolding step Z A B by blast
    next
      case F: False
      then have ne: "\<not> equalsDT (DT (real_of_int t)) (last (labels p))" by (simp add: l)
      have "fst (S ! n) \<noteq> fst (S ! (n - 1))" using F e by simp
      with ne show ?thesis unfolding step by (intro push) simp_all
    qed
  qed
qed

lemma plotEvents_vertices:
  fixes S :: "valid_event list"
  assumes "S \<noteq> []"
  shows "set (zip (labels (fst (plotEvents r proj S))) (neededDataPoints (fst (plotEvents r proj S))))
     = {(proj, 0)}
       \<union> {(DT (real_of_int (fst (S ! k)) - 1),
            r * calculateHoursBetween proj (DT (real_of_int (fst (S ! k))))
              - sum_list (map snd (take k S))) | k.
            k < length S \<and> (k = 0 \<or> fst (S ! k) \<noteq> fst (S ! (k - 1)))}
       \<union> {(DT (real_of_int (fst (S ! k))),
            r * calculateHoursBetween proj (DT (real_of_int (fst (S ! k))))
              - sum_list (map snd (take (Suc k) S))) | k. k < length S}"
proof -
  have pe: "plotEvents r proj S
              = foldl (plotStep r proj)
                  (\<lparr> labels = [proj, DT (real_of_int (fst (hd S)) - 1)],
                     neededDataPoints
                       = [0, r * calculateHoursBetween proj (DT (real_of_int (fst (hd S))))] \<rparr>,
                   0) (take (length S) S)"
    by (simp add: plotEvents_def Let_def)
  have pos: "0 < length S" using assms by simp
  show ?thesis
    unfolding pe foldl_plotStep_vertices [OF order_refl assms, of r proj] image_Collect
    using pos by auto
qed

lemma plotNow_vertices:
  assumes "labels (fst st) \<noteq> []" "length (labels (fst st)) = length (neededDataPoints (fst st))"
    "last (labels (fst st)) = DT tlast"
    "last (neededDataPoints (fst st)) = r * calculateHoursBetween proj (DT tlast) - snd st"
  shows "set (zip (labels (plotNow r proj nowDT st)) (neededDataPoints (plotNow r proj nowDT st)))
     = set (zip (labels (fst st)) (neededDataPoints (fst st)))
       \<union> (if greaterDT nowDT (DT tlast) \<or> equalsDT nowDT (DT tlast)
          then {(nowDT, r * calculateHoursBetween proj nowDT - snd st)} else {})"
proof (cases nowDT)
  case InvalidDT
  then show ?thesis by (simp add: plotNow_def Let_def)
next
  case (DT n)
  have ne: "neededDataPoints (fst st) \<noteq> []" using assms(1,2) by auto
  consider "tlast < n" | "n = tlast" | "n < tlast" by linarith
  then show ?thesis
  proof cases
    case 1
    then show ?thesis using assms by (simp add: plotNow_def Let_def DT)
  next
    case 2
    have "(last (labels (fst st)), last (neededDataPoints (fst st)))
            \<in> set (zip (labels (fst st)) (neededDataPoints (fst st)))"
      using assms(1,2) ne
      by (metis last_in_set last_zip zip_eq_Nil_iff)
    then have m: "(DT tlast, r * calculateHoursBetween proj (DT tlast) - snd st)
            \<in> set (zip (labels (fst st)) (neededDataPoints (fst st)))"
      by (simp add: assms(3,4))
    have "(neededDataPoints (fst st))
            [length (neededDataPoints (fst st)) - 1
               := r * calculateHoursBetween proj (DT tlast) - snd st] = neededDataPoints (fst st)"
      using update_last_id [OF ne] assms(4) by simp
    then show ?thesis using assms(1,3) m 2 by (simp add: plotNow_def Let_def DT insert_absorb)
  next
    case 3
    then show ?thesis using assms by (simp add: plotNow_def Let_def DT)
  qed
qed

lemma calculatePlotData_vertices:
  assumes "0 < rate" "sortedEvents events = (t0, a0) # rest"
  shows "\<exists>p. calculatePlotData strict rate nowDT events = Some p
     \<and> length (labels p) = length (neededDataPoints p)
     \<and> set (zip (labels p) (neededDataPoints p))
        = (let S = sortedEvents events;
               proj = DT (real_of_int t0 - a0 / rate * 3600000)
           in {(proj, 0)}
              \<union> {(DT (real_of_int (fst (S ! k)) - 1),
                   rate * calculateHoursBetween proj (DT (real_of_int (fst (S ! k))))
                     - sum_list (map snd (take k S))) | k.
                   k < length S \<and> (k = 0 \<or> fst (S ! k) \<noteq> fst (S ! (k - 1)))}
              \<union> {(DT (real_of_int (fst (S ! k))),
                   rate * calculateHoursBetween proj (DT (real_of_int (fst (S ! k))))
                     - sum_list (map snd (take (Suc k) S))) | k. k < length S}
              \<union> (if greaterDT nowDT (DT (real_of_int (fst (last S))))
                     \<or> equalsDT nowDT (DT (real_of_int (fst (last S))))
                  then {(nowDT, rate * calculateHoursBetween proj nowDT - sum_list (map snd S))}
                  else {}))"
proof -
  define proj where "proj = DT (real_of_int t0 - a0 / rate * 3600000)"
  define S where "S = sortedEvents events"
  have ne: "S \<noteq> []" using assms(2) by (simp add: S_def)
  have c: "calculatePlotData strict rate nowDT events
             = Some (plotNow rate proj nowDT (plotEvents rate proj S))"
    using calculatePlotData_positive_rate [OF assms(1), of events strict nowDT] assms(2)
    by (simp add: proj_def S_def)
  note pp = plotEvents_props [OF ne, of rate proj]
  note pv = plotEvents_vertices [OF ne, of rate proj]
  note pn = plotNow_vertices [OF pp(2) pp(3) pp(4) , of rate proj nowDT]
  have l: "length (labels (plotNow rate proj nowDT (plotEvents rate proj S)))
             = length (neededDataPoints (plotNow rate proj nowDT (plotEvents rate proj S)))"
    using pp(3) by (simp add: plotNow_def Let_def)
  have v: "set (zip (labels (plotNow rate proj nowDT (plotEvents rate proj S)))
                    (neededDataPoints (plotNow rate proj nowDT (plotEvents rate proj S))))
        = set (zip (labels (fst (plotEvents rate proj S)))
                   (neededDataPoints (fst (plotEvents rate proj S))))
          \<union> (if greaterDT nowDT (DT (real_of_int (fst (last S))))
                 \<or> equalsDT nowDT (DT (real_of_int (fst (last S))))
              then {(nowDT, rate * calculateHoursBetween proj nowDT - sum_list (map snd S))}
              else {})"
    using pn pp(1,5) by simp
  show ?thesis
    unfolding c Let_def S_def [symmetric] proj_def [symmetric]
    using l v pv by simp
qed

section \<open>C1: the point at the current time\<close>

text \<open>
  Claim C1 says that the curve always ends with a point at the current time, also when
  that time lies before the last event. For one dose of \<open>1\<close> at time \<open>0\<close>, the rate \<open>1\<close>
  and the current time \<open>-5\<close> the curve ends at the event's time \<open>0\<close>: no point is added.
\<close>

theorem calculatePlotData_now_before_last_event:
  "calculatePlotData False 1 (DT (- 5)) [\<lparr>dosageAmount = Some 1, dosageTime = Some 0\<rparr>]
     = Some \<lparr> labels = [DT (- 3600000), DT (- 1), DT (- 1), DT 0],
              neededDataPoints = [0, 1, 1, 0] \<rparr>
   \<and> last [DT (- 3600000), DT (- 1), DT (- 1), DT 0] = DT 0"
  by (simp add: calculatePlotData_def sortedEvents_def map_filter_simps plotEvents_def
        plotNow_def Let_def)

text \<open>
  Claim C1 as amended. Let the rate be positive and at least one event pass the filter.
  The ideal line starts at the projected start (the first dose's time less the hours that
  dose lasts at the rate). When the current time is after the last event's time, the
  curve ends with one more point, at the current time, whose deficit is the ideal intake
  up to now less the sum of the doses. When it equals the last event's time, no point is
  added and the last point, which is at the current time, carries that deficit. When it
  is before the last event's time, the curve is left as the events made it and ends at
  the last event's time.
\<close>

theorem calculatePlotData_now:
  assumes "0 < rate" and "sortedEvents events \<noteq> []"
  shows
    "let S = sortedEvents events;
         proj = DT (real_of_int (fst (hd S)) - snd (hd S) / rate * 3600000);
         before = fst (plotEvents rate proj S);
         lastEvent = real_of_int (fst (last S));
         deficit = rate * calculateHoursBetween proj (DT n) - sum_list (map snd S)
     in \<exists>p. calculatePlotData strict rate (DT n) events = Some p
          \<and> (lastEvent < n \<longrightarrow>
                labels p = labels before @ [DT n]
              \<and> neededDataPoints p = neededDataPoints before @ [deficit])
          \<and> (n = lastEvent \<longrightarrow>
                labels p = labels before \<and> last (labels p) = DT n
              \<and> neededDataPoints p = butlast (neededDataPoints before) @ [deficit])
          \<and> (n < lastEvent \<longrightarrow> p = before \<and> last (labels p) = DT lastEvent)"
proof -
  define S where "S = sortedEvents events"
  define proj where "proj = DT (real_of_int (fst (hd S)) - snd (hd S) / rate * 3600000)"
  define st where "st = plotEvents rate proj S"
  have S: "S \<noteq> []" using assms(2) by (simp add: S_def)
  note pp = plotEvents_props [OF S, of rate proj, folded st_def]
  have c: "calculatePlotData strict rate (DT n) events = Some (plotNow rate proj (DT n) st)"
    using calculatePlotData_positive_rate [OF assms] by (simp add: S_def proj_def st_def)
  have ne: "neededDataPoints (fst st) \<noteq> []"
    using pp(2,3) by (metis length_0_conv)
  have 1: "real_of_int (fst (last S)) < n \<Longrightarrow>
             plotNow rate proj (DT n) st =
               \<lparr> labels = labels (fst st) @ [DT n],
                 neededDataPoints = neededDataPoints (fst st)
                   @ [rate * calculateHoursBetween proj (DT n) - sum_list (map snd S)] \<rparr>"
    using pp by (simp add: plotNow_def Let_def)
  have 2: "n = real_of_int (fst (last S)) \<Longrightarrow>
             plotNow rate proj (DT n) st =
               (fst st) \<lparr> neededDataPoints := (neededDataPoints (fst st))
                 [length (neededDataPoints (fst st)) - 1
                    := rate * calculateHoursBetween proj (DT n) - sum_list (map snd S)] \<rparr>"
    using pp by (simp add: plotNow_def Let_def)
  have 3: "n < real_of_int (fst (last S)) \<Longrightarrow> plotNow rate proj (DT n) st = fst st"
    using pp by (simp add: plotNow_def Let_def)
  have "(real_of_int (fst (last S)) < n \<longrightarrow>
                labels (plotNow rate proj (DT n) st) = labels (fst st) @ [DT n]
              \<and> neededDataPoints (plotNow rate proj (DT n) st) = neededDataPoints (fst st)
                   @ [rate * calculateHoursBetween proj (DT n) - sum_list (map snd S)])
          \<and> (n = real_of_int (fst (last S)) \<longrightarrow>
                labels (plotNow rate proj (DT n) st) = labels (fst st)
              \<and> last (labels (plotNow rate proj (DT n) st)) = DT n
              \<and> neededDataPoints (plotNow rate proj (DT n) st)
                  = butlast (neededDataPoints (fst st))
                    @ [rate * calculateHoursBetween proj (DT n) - sum_list (map snd S)])
          \<and> (n < real_of_int (fst (last S)) \<longrightarrow>
                plotNow rate proj (DT n) st = fst st
              \<and> last (labels (plotNow rate proj (DT n) st)) = DT (real_of_int (fst (last S))))"
    using 1 2 3 pp(4) ne by (simp add: update_last)
  then show ?thesis
    unfolding Let_def c S_def [symmetric] proj_def [symmetric] st_def [symmetric]
    using pp(4) by simp
qed

lemma sortedEvents_one:
  "sortedEvents [\<lparr>dosageAmount = Some 1, dosageTime = Some 0\<rparr>] = [(0, 1)]"
  by (simp add: sortedEvents_def map_filter_simps)

lemma plotEvents_one:
  "plotEvents 1 (DT (- 3600000)) [(0, 1)]
     = (\<lparr> labels = [DT (- 3600000), DT (- 1), DT (- 1), DT 0],
           neededDataPoints = [0, 1, 1, 0] \<rparr>, 1)"
  by (simp add: plotEvents_def Let_def)

theorem calculatePlotData_now_witness:
  "(0::real) < 1
   \<and> sortedEvents [\<lparr>dosageAmount = Some 1, dosageTime = Some 0\<rparr>] \<noteq> []
   \<and> calculatePlotData False 1 (DT 3600000) [\<lparr>dosageAmount = Some 1, dosageTime = Some 0\<rparr>]
       = Some \<lparr> labels = [DT (- 3600000), DT (- 1), DT (- 1), DT 0, DT 3600000],
                neededDataPoints = [0, 1, 1, 0, 1] \<rparr>
   \<and> calculatePlotData False 1 (DT 0) [\<lparr>dosageAmount = Some 1, dosageTime = Some 0\<rparr>]
       = Some \<lparr> labels = [DT (- 3600000), DT (- 1), DT (- 1), DT 0],
                neededDataPoints = [0, 1, 1, 0] \<rparr>
   \<and> calculatePlotData False 1 (DT (- 5)) [\<lparr>dosageAmount = Some 1, dosageTime = Some 0\<rparr>]
       = Some \<lparr> labels = [DT (- 3600000), DT (- 1), DT (- 1), DT 0],
                neededDataPoints = [0, 1, 1, 0] \<rparr>"
proof -
  let ?ev = "[\<lparr>dosageAmount = Some 1, dosageTime = Some 0\<rparr>]"
  have h: "(0::real) < 1" "sortedEvents ?ev \<noteq> []"
    by (simp_all add: sortedEvents_one)
  note t = calculatePlotData_now [OF h, of _ False, unfolded Let_def sortedEvents_one]
  have a: "calculatePlotData False 1 (DT 3600000) ?ev
       = Some \<lparr> labels = [DT (- 3600000), DT (- 1), DT (- 1), DT 0, DT 3600000],
                neededDataPoints = [0, 1, 1, 0, 1] \<rparr>"
    using t [of 3600000] by (auto simp: plotEvents_one)
  have b: "calculatePlotData False 1 (DT 0) ?ev
       = Some \<lparr> labels = [DT (- 3600000), DT (- 1), DT (- 1), DT 0],
                neededDataPoints = [0, 1, 1, 0] \<rparr>"
    using t [of 0] by (auto simp: plotEvents_one)
  have c: "calculatePlotData False 1 (DT (- 5)) ?ev
       = Some \<lparr> labels = [DT (- 3600000), DT (- 1), DT (- 1), DT 0],
                neededDataPoints = [0, 1, 1, 0] \<rparr>"
    using t [of "- 5"] by (auto simp: plotEvents_one)
  show ?thesis using h a b c by (intro conjI)
qed

section \<open>C2: where the ideal line starts\<close>

lemma validEvent_nonneg: "validEvent e = Some (t, a) \<Longrightarrow> 0 \<le> a"
  by (auto split: option.splits if_splits)

lemma sortedEvents_nonneg:
  assumes "(t, a) \<in> set (sortedEvents events)"
  shows "0 \<le> a"
proof -
  from assms obtain e where "e \<in> set events" "validEvent e = Some (t, a)"
    by (auto simp: sortedEvents_def List.map_filter_def simp del: validEvent.simps)
  then show ?thesis by (auto dest: validEvent_nonneg simp del: validEvent.simps)
qed

lemma sortedEvents_sorted: "sorted (map fst (sortedEvents events))"
  by (simp add: sortedEvents_def)

lemma sortedEvents_hd_le_last:
  assumes "sortedEvents events = (t0, a0) # rest"
  shows "t0 \<le> fst (last (sortedEvents events))"
proof (cases rest)
  case Nil
  with assms show ?thesis by simp
next
  case (Cons x xs)
  have "last (sortedEvents events) \<in> set rest"
    using assms Cons by simp
  moreover have "\<forall>y \<in> set rest. t0 \<le> fst y"
    using sortedEvents_sorted [of events] assms by simp
  ultimately show ?thesis by blast
qed

lemma plotStep_take2:
  assumes "3 \<le> length (labels p)" "length (labels p) = length (neededDataPoints p)"
  shows "take 2 (labels (fst (plotStep r proj (p, c) (t, a)))) = take 2 (labels p)
     \<and> take 2 (neededDataPoints (fst (plotStep r proj (p, c) (t, a))))
         = take 2 (neededDataPoints p)
     \<and> 3 \<le> length (labels (fst (plotStep r proj (p, c) (t, a))))"
proof -
  have ne: "labels p \<noteq> []" using assms(1) by auto
  show ?thesis
  proof (cases "equalsDT (DT (real_of_int t)) (last (labels p))")
    case True
    show ?thesis using assms by (simp add: plotStep_same [OF ne True] del: plotStep.simps)
  next
    case False
    show ?thesis using assms by (simp add: plotStep_push [OF ne False] del: plotStep.simps)
  qed
qed

lemma foldl_plotStep_take2:
  assumes "3 \<le> length (labels (fst st))"
    "length (labels (fst st)) = length (neededDataPoints (fst st))"
  shows "take 2 (labels (fst (foldl (plotStep r proj) st es))) = take 2 (labels (fst st))
     \<and> take 2 (neededDataPoints (fst (foldl (plotStep r proj) st es)))
         = take 2 (neededDataPoints (fst st))
     \<and> 3 \<le> length (labels (fst (foldl (plotStep r proj) st es)))"
proof (induction es rule: rev_induct)
  case Nil
  show ?case using assms by simp
next
  case (snoc e es)
  obtain p c where st: "foldl (plotStep r proj) st es = (p, c)"
    by (cases "foldl (plotStep r proj) st es")
  obtain t a where e: "e = (t, a)" by (cases e)
  have ne: "labels (fst st) \<noteq> []" using assms(1) by auto
  from foldl_plotStep [OF ne, of r proj es] assms(2) st
  have len: "length (labels p) = length (neededDataPoints p)" by simp
  from snoc st have p3: "3 \<le> length (labels p)" by simp
  show ?case
    using snoc plotStep_take2 [OF p3 len, of r proj c t a]
    by (simp add: st e del: plotStep.simps)
qed

lemma plotEvents_take2:
  assumes "S = (t0, a0) # rest"
  shows "take 2 (labels (fst (plotEvents r proj S))) = [proj, DT (real_of_int t0 - 1)]
     \<and> take 2 (neededDataPoints (fst (plotEvents r proj S)))
         = [0, r * calculateHoursBetween proj (DT (real_of_int t0))]
     \<and> 3 \<le> length (labels (fst (plotEvents r proj S)))"
proof -
  let ?init = "\<lparr> labels = [proj, DT (real_of_int t0 - 1)],
                 neededDataPoints = [0, r * calculateHoursBetween proj (DT (real_of_int t0))] \<rparr>"
  have push: "plotStep r proj (?init, 0) (t0, a0) =
     (\<lparr> labels = labels ?init @ [DT (real_of_int t0 - 1), DT (real_of_int t0)],
        neededDataPoints = neededDataPoints ?init
          @ [r * calculateHoursBetween proj (DT (real_of_int t0)) - 0,
             r * calculateHoursBetween proj (DT (real_of_int t0)) - (0 + a0)] \<rparr>, 0 + a0)"
    by (rule plotStep_push) simp_all
  have pe: "plotEvents r proj S
              = foldl (plotStep r proj) (plotStep r proj (?init, 0) (t0, a0)) rest"
    by (simp add: plotEvents_def assms Let_def del: plotStep.simps)
  show ?thesis
    unfolding pe push
    using foldl_plotStep_take2 [of "(\<lparr> labels = labels ?init @ [DT (real_of_int t0 - 1), DT (real_of_int t0)],
        neededDataPoints = neededDataPoints ?init
          @ [r * calculateHoursBetween proj (DT (real_of_int t0)) - 0,
             r * calculateHoursBetween proj (DT (real_of_int t0)) - (0 + a0)] \<rparr>, 0 + a0)" r proj rest]
    by simp
qed

lemma plotNow_take2:
  assumes "3 \<le> length (labels (fst st))"
    "length (labels (fst st)) = length (neededDataPoints (fst st))"
  shows "take 2 (labels (plotNow r proj nowDT st)) = take 2 (labels (fst st))
     \<and> take 2 (neededDataPoints (plotNow r proj nowDT st)) = take 2 (neededDataPoints (fst st))"
  using assms by (simp add: plotNow_def Let_def)


lemma ideal_from_projected_start:
  assumes "0 < rate" "0 \<le> a0" "t0 \<le> n"
  shows "rate * calculateHoursBetween (DT (t0 - a0 / rate * 3600000)) (DT n)
           = a0 + rate * calculateHoursBetween (DT t0) (DT n)"
proof -
  have "0 \<le> a0 / rate * 3600000" using assms by simp
  then have "\<bar>n - (t0 - a0 / rate * 3600000)\<bar> = (n - t0) + a0 / rate * 3600000"
    using assms(3) by simp
  moreover have "\<bar>n - t0\<bar> = n - t0" using assms(3) by simp
  ultimately show ?thesis using assms(1) by (simp add: field_simps)
qed

text \<open>
  Claim C2 says that the ideal intake is counted from the first dose. For one dose of
  \<open>1\<close>, the rate \<open>1/12\<close> an hour and the current time a day later, the total ideally
  needed that the statistics carry is \<open>3\<close>, while the rate times the hours since the
  first dose is \<open>2\<close>.
\<close>

theorem ideal_line_projected_backward_example:
  "updateStatisticsDisplay False (1/12) (DT 86400000)
      [\<lparr>dosageAmount = Some 1, dosageTime = Some 0\<rparr>]
     = Stats \<lparr>s_needed = 2, s_totalGiven = 1, s_totalNeeded = 3, s_half = Some (- 18),
              s_half_time = Some (DT 21600000), s_one = Some (- 12),
              s_one_time = Some (DT 43200000)\<rparr>
   \<and> (1/12) * calculateHoursBetween (DT 0) (DT 86400000) = 2"
  by (simp add: updateStatisticsDisplay_def totalGivenOf_def Let_def addDouble_0_1 addDouble_1_5)

text \<open>
  Claim C2 as amended. The ideal line is anchored at the projected start, the time \<open>t0\<close>
  of the first dose less \<open>a0 / rate\<close> hours for its amount \<open>a0\<close>; the rate is positive.

  The statistics take the first element of the list they are given, with a valid time
  \<open>t0\<close> and a numeric amount \<open>a0\<close>: the total ideally needed is the rate times the hours
  from the projected start to \<open>t0\<close> and on to now, which is \<open>|a0|\<close> more than the rate
  times the hours since \<open>t0\<close>; the amount needed is that total less the total given,
  floored at \<open>0\<close>; and the two thresholds are \<open>(0.5 - needed) / rate\<close> and
  \<open>(1 - needed) / rate\<close>.

  The curve takes the earliest valid event \<open>(t0, a0)\<close> of the sorted list \<open>S\<close>. It opens
  with the projected start at deficit \<open>0\<close> and the point a millisecond before \<open>t0\<close> at
  deficit \<open>a0\<close>, and its vertices are exactly these: the projected start at \<open>0\<close>; for
  every event \<open>k\<close> that is the first or whose time differs from the one before it, the
  point a millisecond before its time \<open>t\<close> at the rate times the hours from the projected
  start to \<open>t\<close>, less the doses before it; for every event \<open>k\<close> the point at its time \<open>t\<close>
  at the rate times the hours from the projected start to \<open>t\<close>, less the doses up to and
  including it; and, when the current time is not before the last event, the point at the
  current time at the rate times the hours from the projected start to now, less all
  doses. At every instant \<open>n\<close> from \<open>t0\<close> on, the rate times the hours from the projected
  start to \<open>n\<close> is \<open>a0\<close> more than the rate times the hours from \<open>t0\<close> to \<open>n\<close>. A current
  time after the last event gives the last point of the curve, with the deficit \<open>a0\<close> plus
  the rate times the hours since \<open>t0\<close>, less all doses.
\<close>

theorem ideal_line_projected_backward:
  assumes "0 < rate"
  shows
    "(\<forall>e0 es t0 a0.
        events = e0 # es \<and> dosageTime e0 = Some t0 \<and> dosageAmount e0 = Some a0
        \<longrightarrow> (\<exists>s. updateStatisticsDisplay strict rate nowDT events = Stats s
              \<and> s_totalNeeded s
                  = rate * (calculateHoursBetween
                              (DT (real_of_int t0 - a0 / rate * 3600000)) (DT (real_of_int t0))
                            + calculateHoursBetween (DT (real_of_int t0)) nowDT)
              \<and> s_totalNeeded s
                  = \<bar>a0\<bar> + rate * calculateHoursBetween (DT (real_of_int t0)) nowDT
              \<and> s_needed s
                  = max 0 (\<bar>a0\<bar> + rate * calculateHoursBetween (DT (real_of_int t0)) nowDT
                           - totalGivenOf events)
              \<and> s_half s = Some ((1/2 - s_needed s) / rate)
              \<and> s_one s = Some ((1 - s_needed s) / rate)))
     \<and> (\<forall>t0 a0 rest.
          sortedEvents events = (t0, a0) # rest
          \<longrightarrow> (\<exists>p. calculatePlotData strict rate nowDT events = Some p
                \<and> length (labels p) = length (neededDataPoints p)
                \<and> take 2 (labels p)
                    = [DT (real_of_int t0 - a0 / rate * 3600000), DT (real_of_int t0 - 1)]
                \<and> take 2 (neededDataPoints p) = [0, a0]
                \<and> set (zip (labels p) (neededDataPoints p))
                    = (let S = sortedEvents events;
                           proj = DT (real_of_int t0 - a0 / rate * 3600000)
                       in {(proj, 0)}
                          \<union> {(DT (real_of_int (fst (S ! k)) - 1),
                               rate * calculateHoursBetween proj (DT (real_of_int (fst (S ! k))))
                                 - sum_list (map snd (take k S))) | k.
                               k < length S \<and> (k = 0 \<or> fst (S ! k) \<noteq> fst (S ! (k - 1)))}
                          \<union> {(DT (real_of_int (fst (S ! k))),
                               rate * calculateHoursBetween proj (DT (real_of_int (fst (S ! k))))
                                 - sum_list (map snd (take (Suc k) S))) | k. k < length S}
                          \<union> (if greaterDT nowDT (DT (real_of_int (fst (last S))))
                                 \<or> equalsDT nowDT (DT (real_of_int (fst (last S))))
                              then {(nowDT, rate * calculateHoursBetween proj nowDT
                                              - sum_list (map snd S))}
                              else {}))
                \<and> (\<forall>n. real_of_int t0 \<le> n
                      \<longrightarrow> rate * calculateHoursBetween
                                   (DT (real_of_int t0 - a0 / rate * 3600000)) (DT n)
                            = a0 + rate * calculateHoursBetween (DT (real_of_int t0)) (DT n))))
     \<and> (\<forall>t0 a0 rest n.
          sortedEvents events = (t0, a0) # rest \<and> nowDT = DT n
          \<and> real_of_int (fst (last (sortedEvents events))) < n
          \<longrightarrow> (\<exists>p. calculatePlotData strict rate nowDT events = Some p
                \<and> last (labels p) = DT n
                \<and> last (neededDataPoints p)
                    = a0 + rate * calculateHoursBetween (DT (real_of_int t0)) (DT n)
                      - sum_list (map snd (sortedEvents events))))"
proof (intro conjI allI impI)
  fix e0 es t0 a0
  assume a: "events = e0 # es \<and> dosageTime e0 = Some t0 \<and> dosageAmount e0 = Some a0"
  then show "\<exists>s. updateStatisticsDisplay strict rate nowDT events = Stats s
              \<and> s_totalNeeded s
                  = rate * (calculateHoursBetween
                              (DT (real_of_int t0 - a0 / rate * 3600000)) (DT (real_of_int t0))
                            + calculateHoursBetween (DT (real_of_int t0)) nowDT)
              \<and> s_totalNeeded s
                  = \<bar>a0\<bar> + rate * calculateHoursBetween (DT (real_of_int t0)) nowDT
              \<and> s_needed s
                  = max 0 (\<bar>a0\<bar> + rate * calculateHoursBetween (DT (real_of_int t0)) nowDT
                           - totalGivenOf events)
              \<and> s_half s = Some ((1/2 - s_needed s) / rate)
              \<and> s_one s = Some ((1 - s_needed s) / rate)"
    using stats_needed_from_inputs [OF assms, of e0 t0 a0 strict nowDT es] by auto
next
  fix t0 a0 rest
  assume S: "sortedEvents events = (t0, a0) # rest"
  define proj where "proj = DT (real_of_int t0 - a0 / rate * 3600000)"
  have ne: "sortedEvents events \<noteq> []" using S by simp
  have a0: "0 \<le> a0" using sortedEvents_nonneg [of t0 a0 events] S by simp
  have c: "calculatePlotData strict rate nowDT events
             = Some (plotNow rate proj nowDT (plotEvents rate proj (sortedEvents events)))"
    using calculatePlotData_positive_rate [OF assms ne] by (simp add: S proj_def)
  note pe = plotEvents_take2 [OF S, of rate proj]
  note pp = plotEvents_props [OF ne, of rate proj]
  note pn = plotNow_take2 [of "plotEvents rate proj (sortedEvents events)" rate proj nowDT]
  have v: "rate * calculateHoursBetween proj (DT (real_of_int t0)) = a0"
    using assms a0 by (simp add: proj_def)
  have t2: "take 2 (labels (plotNow rate proj nowDT (plotEvents rate proj (sortedEvents events))))
              = [DT (real_of_int t0 - a0 / rate * 3600000), DT (real_of_int t0 - 1)]
          \<and> take 2 (neededDataPoints
                (plotNow rate proj nowDT (plotEvents rate proj (sortedEvents events)))) = [0, a0]"
    using pe pp(3) pn v by (simp add: proj_def)
  from calculatePlotData_vertices [OF assms S, of strict nowDT] c
  have vs: "length (labels (plotNow rate proj nowDT (plotEvents rate proj (sortedEvents events))))
              = length (neededDataPoints
                  (plotNow rate proj nowDT (plotEvents rate proj (sortedEvents events))))
     \<and> set (zip (labels (plotNow rate proj nowDT (plotEvents rate proj (sortedEvents events))))
                (neededDataPoints
                  (plotNow rate proj nowDT (plotEvents rate proj (sortedEvents events)))))
        = (let S = sortedEvents events;
               proj = DT (real_of_int t0 - a0 / rate * 3600000)
           in {(proj, 0)}
              \<union> {(DT (real_of_int (fst (S ! k)) - 1),
                   rate * calculateHoursBetween proj (DT (real_of_int (fst (S ! k))))
                     - sum_list (map snd (take k S))) | k.
                   k < length S \<and> (k = 0 \<or> fst (S ! k) \<noteq> fst (S ! (k - 1)))}
              \<union> {(DT (real_of_int (fst (S ! k))),
                   rate * calculateHoursBetween proj (DT (real_of_int (fst (S ! k))))
                     - sum_list (map snd (take (Suc k) S))) | k. k < length S}
              \<union> (if greaterDT nowDT (DT (real_of_int (fst (last S))))
                     \<or> equalsDT nowDT (DT (real_of_int (fst (last S))))
                  then {(nowDT, rate * calculateHoursBetween proj nowDT - sum_list (map snd S))}
                  else {}))"
    by simp
  have an: "\<forall>n. real_of_int t0 \<le> n
              \<longrightarrow> rate * calculateHoursBetween
                           (DT (real_of_int t0 - a0 / rate * 3600000)) (DT n)
                    = a0 + rate * calculateHoursBetween (DT (real_of_int t0)) (DT n)"
    using ideal_from_projected_start [OF assms a0] by blast
  show "\<exists>p. calculatePlotData strict rate nowDT events = Some p
                \<and> length (labels p) = length (neededDataPoints p)
                \<and> take 2 (labels p)
                    = [DT (real_of_int t0 - a0 / rate * 3600000), DT (real_of_int t0 - 1)]
                \<and> take 2 (neededDataPoints p) = [0, a0]
                \<and> set (zip (labels p) (neededDataPoints p))
                    = (let S = sortedEvents events;
                           proj = DT (real_of_int t0 - a0 / rate * 3600000)
                       in {(proj, 0)}
                          \<union> {(DT (real_of_int (fst (S ! k)) - 1),
                               rate * calculateHoursBetween proj (DT (real_of_int (fst (S ! k))))
                                 - sum_list (map snd (take k S))) | k.
                               k < length S \<and> (k = 0 \<or> fst (S ! k) \<noteq> fst (S ! (k - 1)))}
                          \<union> {(DT (real_of_int (fst (S ! k))),
                               rate * calculateHoursBetween proj (DT (real_of_int (fst (S ! k))))
                                 - sum_list (map snd (take (Suc k) S))) | k. k < length S}
                          \<union> (if greaterDT nowDT (DT (real_of_int (fst (last S))))
                                 \<or> equalsDT nowDT (DT (real_of_int (fst (last S))))
                              then {(nowDT, rate * calculateHoursBetween proj nowDT
                                              - sum_list (map snd S))}
                              else {}))
                \<and> (\<forall>n. real_of_int t0 \<le> n
                      \<longrightarrow> rate * calculateHoursBetween
                                   (DT (real_of_int t0 - a0 / rate * 3600000)) (DT n)
                            = a0 + rate * calculateHoursBetween (DT (real_of_int t0)) (DT n))"
    unfolding c using t2 vs an by blast
next
  fix t0 a0 rest n
  assume h: "sortedEvents events = (t0, a0) # rest \<and> nowDT = DT n
          \<and> real_of_int (fst (last (sortedEvents events))) < n"
  then have S: "sortedEvents events = (t0, a0) # rest"
    and n: "nowDT = DT n"
    and lt: "real_of_int (fst (last (sortedEvents events))) < n"
    by blast+
  define proj where "proj = DT (real_of_int t0 - a0 / rate * 3600000)"
  have ne: "sortedEvents events \<noteq> []" using S by simp
  have a0: "0 \<le> a0" using sortedEvents_nonneg [of t0 a0 events] S by simp
  have le: "real_of_int t0 \<le> n"
    using sortedEvents_hd_le_last [OF S] lt by linarith
  have c: "calculatePlotData strict rate nowDT events
             = Some (plotNow rate proj nowDT (plotEvents rate proj (sortedEvents events)))"
    using calculatePlotData_positive_rate [OF assms ne] by (simp add: S proj_def)
  note pp = plotEvents_props [OF ne, of rate proj]
  have now: "plotNow rate proj (DT n) (plotEvents rate proj (sortedEvents events)) =
               \<lparr> labels = labels (fst (plotEvents rate proj (sortedEvents events))) @ [DT n],
                 neededDataPoints = neededDataPoints (fst (plotEvents rate proj (sortedEvents events)))
                   @ [rate * calculateHoursBetween proj (DT n)
                        - sum_list (map snd (sortedEvents events))] \<rparr>"
    using pp lt by (simp add: plotNow_def Let_def)
  show "\<exists>p. calculatePlotData strict rate nowDT events = Some p
                \<and> last (labels p) = DT n
                \<and> last (neededDataPoints p)
                    = a0 + rate * calculateHoursBetween (DT (real_of_int t0)) (DT n)
                      - sum_list (map snd (sortedEvents events))"
  proof (intro exI conjI)
    show "calculatePlotData strict rate nowDT events
            = Some (plotNow rate proj nowDT (plotEvents rate proj (sortedEvents events)))"
      by (rule c)
    show "last (labels (plotNow rate proj nowDT (plotEvents rate proj (sortedEvents events))))
            = DT n"
      unfolding n now by simp
    have "rate * calculateHoursBetween proj (DT n)
            = a0 + rate * calculateHoursBetween (DT (real_of_int t0)) (DT n)"
      unfolding proj_def by (rule ideal_from_projected_start [OF assms a0 le])
    then show "last (neededDataPoints
                 (plotNow rate proj nowDT (plotEvents rate proj (sortedEvents events))))
            = a0 + rate * calculateHoursBetween (DT (real_of_int t0)) (DT n)
              - sum_list (map snd (sortedEvents events))"
      unfolding n now by simp
  qed
qed

theorem ideal_line_projected_backward_witness:
  "(0::real) < 1
   \<and> sortedEvents [\<lparr>dosageAmount = Some 2, dosageTime = Some 3600000\<rparr>,
                    \<lparr>dosageAmount = Some 1, dosageTime = Some 0\<rparr>]
       = [(0, 1), (3600000, 2)]
   \<and> (\<exists>s. updateStatisticsDisplay False 1 (DT 7200000)
              [\<lparr>dosageAmount = Some 1, dosageTime = Some 0\<rparr>,
               \<lparr>dosageAmount = Some 2, dosageTime = Some 3600000\<rparr>] = Stats s
          \<and> s_totalNeeded s = 3 \<and> s_needed s = 0
          \<and> s_half s = Some (1/2) \<and> s_one s = Some 1)
   \<and> (\<exists>p. calculatePlotData False 1 (DT 7200000)
              [\<lparr>dosageAmount = Some 2, dosageTime = Some 3600000\<rparr>,
               \<lparr>dosageAmount = Some 1, dosageTime = Some 0\<rparr>] = Some p
          \<and> length (labels p) = length (neededDataPoints p)
          \<and> take 2 (labels p) = [DT (- 3600000), DT (- 1)]
          \<and> take 2 (neededDataPoints p) = [0, 1]
          \<and> set (zip (labels p) (neededDataPoints p))
              = {(DT (- 3600000), 0), (DT (- 1), 1), (DT 0, 0), (DT 3599999, 1),
                 (DT 3600000, - 1), (DT 7200000, 0)}
          \<and> last (labels p) = DT 7200000
          \<and> last (neededDataPoints p) = 0)
   \<and> 1 * calculateHoursBetween (DT (- 3600000)) (DT 7200000)
       = 1 + 1 * calculateHoursBetween (DT 0) (DT 7200000)"
proof -
  let ?st = "[\<lparr>dosageAmount = Some 1, dosageTime = Some 0\<rparr>,
              \<lparr>dosageAmount = Some 2, dosageTime = Some 3600000\<rparr>]"
  let ?ev = "[\<lparr>dosageAmount = Some 2, dosageTime = Some 3600000\<rparr>,
              \<lparr>dosageAmount = Some 1, dosageTime = Some 0\<rparr>]"
  have h: "(0::real) < 1" by simp
  have S: "sortedEvents ?ev = [(0, 1), (3600000, 2)]"
    by (simp add: sortedEvents_def map_filter_simps)
  have g: "totalGivenOf ?st = 3"
    by (simp add: totalGivenOf_def addDouble_0_1 addDouble_1_2)
  note t = ideal_line_projected_backward [OF h, of ?st False "DT 7200000"]
  note u = ideal_line_projected_backward [OF h, of ?ev False "DT 7200000"]
  have hs: "?st = \<lparr>dosageAmount = Some 1, dosageTime = Some 0\<rparr>
                   # [\<lparr>dosageAmount = Some 2, dosageTime = Some 3600000\<rparr>]
      \<and> dosageTime \<lparr>dosageAmount = Some (1::real), dosageTime = Some 0\<rparr> = Some 0
      \<and> dosageAmount \<lparr>dosageAmount = Some (1::real), dosageTime = Some 0\<rparr> = Some 1"
    by simp
  from t [THEN conjunct1, rule_format, OF hs]
  obtain s where s: "updateStatisticsDisplay False 1 (DT 7200000) ?st = Stats s"
    "s_totalNeeded s = \<bar>1\<bar> + 1 * calculateHoursBetween (DT (real_of_int 0)) (DT 7200000)"
    "s_needed s = max 0 (\<bar>1\<bar> + 1 * calculateHoursBetween (DT (real_of_int 0)) (DT 7200000)
                           - totalGivenOf ?st)"
    "s_half s = Some ((1/2 - s_needed s) / 1)"
    "s_one s = Some ((1 - s_needed s) / 1)"
    by blast
  have n: "s_needed s = 0" using s(3) by (simp add: g)
  have a: "\<exists>s. updateStatisticsDisplay False 1 (DT 7200000) ?st = Stats s
          \<and> s_totalNeeded s = 3 \<and> s_needed s = 0
          \<and> s_half s = Some (1/2) \<and> s_one s = Some 1"
    using s(1,2,4,5) n by simp
  from u [THEN conjunct2, THEN conjunct1, rule_format, OF S]
  obtain p where p: "calculatePlotData False 1 (DT 7200000) ?ev = Some p"
    "length (labels p) = length (neededDataPoints p)"
    "take 2 (labels p) = [DT (real_of_int 0 - 1 / 1 * 3600000), DT (real_of_int 0 - 1)]"
    "take 2 (neededDataPoints p) = [0, 1]"
    "set (zip (labels p) (neededDataPoints p))
       = (let S = sortedEvents ?ev;
              proj = DT (real_of_int 0 - 1 / 1 * 3600000)
          in {(proj, 0)}
             \<union> {(DT (real_of_int (fst (S ! k)) - 1),
                  1 * calculateHoursBetween proj (DT (real_of_int (fst (S ! k))))
                    - sum_list (map snd (take k S))) | k.
                  k < length S \<and> (k = 0 \<or> fst (S ! k) \<noteq> fst (S ! (k - 1)))}
             \<union> {(DT (real_of_int (fst (S ! k))),
                  1 * calculateHoursBetween proj (DT (real_of_int (fst (S ! k))))
                    - sum_list (map snd (take (Suc k) S))) | k. k < length S}
             \<union> (if greaterDT (DT 7200000) (DT (real_of_int (fst (last S))))
                    \<or> equalsDT (DT 7200000) (DT (real_of_int (fst (last S))))
                 then {(DT 7200000, 1 * calculateHoursBetween proj (DT 7200000)
                                 - sum_list (map snd S))}
                 else {}))"
    "\<forall>n. real_of_int 0 \<le> n
         \<longrightarrow> 1 * calculateHoursBetween (DT (real_of_int 0 - 1 / 1 * 3600000)) (DT n)
               = 1 + 1 * calculateHoursBetween (DT (real_of_int 0)) (DT n)"
    by blast
  have i: "1 * calculateHoursBetween (DT (- 3600000)) (DT 7200000)
             = 1 + 1 * calculateHoursBetween (DT 0) (DT 7200000)"
    using p(6) [THEN spec, of 7200000] by simp
  have z: "set (zip (labels p) (neededDataPoints p))
              = {(DT (- 3600000), 0), (DT (- 1), 1), (DT 0, 0), (DT 3599999, 1),
                 (DT 3600000, - 1), (DT 7200000, 0)}"
    unfolding p(5) S Let_def list.size One_nat_def add_Suc_right add_0_right add_0
      Collect_less_2 Collect_less_2_all
    by (simp add: insert_commute)
  have hl: "sortedEvents ?ev = (0, 1) # [(3600000, 2)] \<and> DT 7200000 = DT 7200000
          \<and> real_of_int (fst (last (sortedEvents ?ev))) < 7200000"
    by (simp add: S)
  from u [THEN conjunct2, THEN conjunct2, rule_format, OF hl] p(1)
  have l: "last (labels p) = DT 7200000" "last (neededDataPoints p) = 0"
    by (simp_all add: S)
  show ?thesis
    using h S a p(1,2,3,4) z l i by simp
qed

section \<open>C4: the order of the labels\<close>

text \<open>
  The events are sorted before the loop, and the labels of the curve come out in
  non-decreasing order whenever the first dose lasts at least a millisecond at the rate,
  that is \<open>rate \<le> a0 * 3600000\<close>.
\<close>

lemma plotStep_sorted:
  assumes "labels p = map DT (ts @ [real_of_int k])" "sorted (ts @ [real_of_int k])" "k \<le> t"
  shows "\<exists>ts'. labels (fst (plotStep r proj (p, c) (t, a))) = map DT (ts' @ [real_of_int t])
            \<and> sorted (ts' @ [real_of_int t])"
proof -
  have ne: "labels p \<noteq> []" using assms(1) by simp
  have l: "last (labels p) = DT (real_of_int k)" using assms(1) by simp
  show ?thesis
  proof (cases "t = k")
    case True
    then have eq: "equalsDT (DT (real_of_int t)) (last (labels p))" by (simp add: l)
    have "labels (fst (plotStep r proj (p, c) (t, a)))
            = map DT ((ts @ [real_of_int k]) @ [real_of_int t])"
      by (simp add: plotStep_same [OF ne eq] assms(1) del: plotStep.simps)
    moreover have "sorted ((ts @ [real_of_int k]) @ [real_of_int t])"
      using assms(2) True by (simp add: sorted_append)
    ultimately show ?thesis by blast
  next
    case False
    then have neq: "\<not> equalsDT (DT (real_of_int t)) (last (labels p))" by (simp add: l)
    from False assms(3) have k: "real_of_int k \<le> real_of_int t - 1"
      by linarith
    have "labels (fst (plotStep r proj (p, c) (t, a)))
            = map DT ((ts @ [real_of_int k, real_of_int t - 1]) @ [real_of_int t])"
      by (simp add: plotStep_push [OF ne neq] assms(1) del: plotStep.simps)
    moreover have "sorted ((ts @ [real_of_int k, real_of_int t - 1]) @ [real_of_int t])"
      using assms(2) k by (auto simp: sorted_append)
    ultimately show ?thesis by blast
  qed
qed

lemma foldl_plotStep_sorted:
  assumes "sorted (map fst es)" "labels (fst st) = map DT (ts @ [real_of_int k])"
    "sorted (ts @ [real_of_int k])" "\<forall>e \<in> set es. k \<le> fst e"
  shows "\<exists>ts'. labels (fst (foldl (plotStep r proj) st es)) = map DT ts' \<and> sorted ts'"
  using assms
proof (induction es arbitrary: st ts k)
  case Nil
  then have "labels (fst (foldl (plotStep r proj) st [])) = map DT (ts @ [real_of_int k])
               \<and> sorted (ts @ [real_of_int k])"
    by simp
  then show ?case by blast
next
  case (Cons e es)
  obtain p c where st: "st = (p, c)" by (cases st)
  obtain t a where e: "e = (t, a)" by (cases e)
  from Cons.prems have kt: "k \<le> t" by (simp add: e)
  from plotStep_sorted [OF _ Cons.prems(3) kt, of p r proj c a] Cons.prems(2)
  obtain ts' where ts': "labels (fst (plotStep r proj (p, c) (t, a))) = map DT (ts' @ [real_of_int t])"
    "sorted (ts' @ [real_of_int t])"
    by (auto simp: st)
  have "\<forall>x \<in> set es. t \<le> fst x" using Cons.prems(1) by (simp add: e)
  moreover have "sorted (map fst es)" using Cons.prems(1) by simp
  ultimately have "\<exists>ts''. labels (fst (foldl (plotStep r proj) (plotStep r proj (p, c) (t, a)) es))
                       = map DT ts'' \<and> sorted ts''"
    using Cons.IH [of "plotStep r proj (p, c) (t, a)" ts' t] ts' by blast
  then show ?case by (simp add: st e del: plotStep.simps)
qed

lemma plotNow_sorted:
  assumes "labels (fst st) = map DT ts" "sorted ts"
  shows "\<exists>ts'. labels (plotNow r proj nowDT st) = map DT ts' \<and> sorted ts'"
proof (cases "isValid nowDT \<and> (ts = [] \<or> greaterDT nowDT (last (labels (fst st))))")
  case False
  then have "labels (plotNow r proj nowDT st) = labels (fst st)"
    using assms(1) by (auto simp: plotNow_def Let_def)
  with assms show ?thesis by auto
next
  case True
  then obtain n where n: "nowDT = DT n" by (cases nowDT) auto
  have l: "labels (plotNow r proj nowDT st) = map DT (ts @ [n])"
    using True assms(1) by (auto simp: plotNow_def Let_def n)
  have "sorted (ts @ [n])"
  proof (cases "ts = []")
    case True
    then show ?thesis by simp
  next
    case False
    then obtain ys y where ts: "ts = ys @ [y]"
      by (cases ts rule: rev_cases) auto
    with True have lt: "y < n" by (simp add: n assms(1))
    from assms(2) ts have "\<forall>x \<in> set ys. x \<le> y" "sorted ys"
      by (simp_all add: sorted_append)
    with lt have "\<forall>x \<in> set ys. x \<le> n" by fastforce
    with \<open>sorted ys\<close> \<open>\<forall>x \<in> set ys. x \<le> y\<close> lt show ?thesis
      by (simp add: ts sorted_append)
  qed
  with l show ?thesis by blast
qed


lemma labels_nondecreasing:
  assumes "0 < rate" "sortedEvents events = (t0, a0) # rest" "rate \<le> a0 * 3600000"
  shows "\<exists>p ts. calculatePlotData strict rate nowDT events = Some p
            \<and> labels p = map DT ts \<and> sorted ts"
proof -
  define S where "S = sortedEvents events"
  define proj where "proj = DT (real_of_int t0 - a0 / rate * 3600000)"
  have S: "S = (t0, a0) # rest" by (simp add: S_def assms(2))
  have ne: "sortedEvents events \<noteq> []" using assms(2) by simp
  have c: "calculatePlotData strict rate nowDT events
             = Some (plotNow rate proj nowDT (plotEvents rate proj S))"
    using calculatePlotData_positive_rate [OF assms(1) ne] by (simp add: assms(2) proj_def S_def)
  let ?init = "(\<lparr> labels = [proj, DT (real_of_int t0 - 1)],
                 neededDataPoints = [0, rate * calculateHoursBetween proj (DT (real_of_int t0))] \<rparr>,
               0::real)"
  have pe: "plotEvents rate proj S = foldl (plotStep rate proj) ?init S"
    by (simp add: plotEvents_def Let_def S del: plotStep.simps)
  have srt: "sorted (map fst S)"
    unfolding S_def by (rule sortedEvents_sorted)
  have "1 \<le> a0 / rate * 3600000"
    using assms(1,3) by (simp add: field_simps)
  then have s0: "sorted ([real_of_int t0 - a0 / rate * 3600000] @ [real_of_int (t0 - 1)])"
    by simp
  have l0: "labels (fst ?init)
              = map DT ([real_of_int t0 - a0 / rate * 3600000] @ [real_of_int (t0 - 1)])"
    by (simp add: proj_def)
  have ge: "\<forall>e \<in> set S. t0 - 1 \<le> fst e"
    using srt by (auto simp: S)
  from foldl_plotStep_sorted [OF srt l0 s0 ge, of rate proj]
  obtain ts where ts: "labels (fst (plotEvents rate proj S)) = map DT ts" "sorted ts"
    unfolding pe by blast
  from plotNow_sorted [OF ts, of rate proj nowDT] c show ?thesis
    by blast
qed

text \<open>
  Claim C4 says that the labels are non-decreasing for every list of events. A first
  dose of amount \<open>0\<close> passes the filter and puts the projected start at the first dose's
  own time, a millisecond after the label that follows it: the labels run
  \<open>0, -1, -1, 0, 3600000\<close>, and this curve is the one charted.
\<close>

theorem labels_decrease_for_zero_first_dose:
  "calculatePlotData strict 1 (DT 3600000) [\<lparr>dosageAmount = Some 0, dosageTime = Some 0\<rparr>]
     = Some \<lparr> labels = [DT 0, DT (- 1), DT (- 1), DT 0, DT 3600000],
              neededDataPoints = [0, 0, 0, 0, 1] \<rparr>
   \<and> plotDosageGraph strict 1 (DT 3600000) [\<lparr>dosageAmount = Some 0, dosageTime = Some 0\<rparr>]
     = Chart \<lparr> labels = [DT 0, DT (- 1), DT (- 1), DT 0, DT 3600000],
               neededDataPoints = [0, 0, 0, 0, 1] \<rparr>
   \<and> greaterDT (DT 0) (DT (- 1))"
  by (simp add: plotDosageGraph_def calculatePlotData_def sortedEvents_def map_filter_simps
        plotEvents_def plotNow_def Let_def)

end
